theory Spec2Isabelle
  imports Main
begin

section \<open>Text\<close>

text \<open>
  A Python \<open>str\<close> is modelled as a \<open>string\<close> holding its UTF-8 bytes. The literals of
  \<open>main.py\<close> that are not ASCII (Cyrillic text, emoji) are written as lists of Unicode code
  points under \<open>utf8\<close>, which encodes them; f-string interpolation is concatenation.
\<close>

definition utf8_char :: "nat \<Rightarrow> string" where
  "utf8_char c =
     (if c < 0x80 then [char_of c]
      else if c < 0x800 then [char_of (0xC0 + c div 0x40), char_of (0x80 + c mod 0x40)]
      else if c < 0x10000 then
        [char_of (0xE0 + c div 0x1000), char_of (0x80 + c div 0x40 mod 0x40),
         char_of (0x80 + c mod 0x40)]
      else
        [char_of (0xF0 + c div 0x40000), char_of (0x80 + c div 0x1000 mod 0x40),
         char_of (0x80 + c div 0x40 mod 0x40), char_of (0x80 + c mod 0x40)])"

definition utf8 :: "nat list \<Rightarrow> string" where
  "utf8 cs = concat (map utf8_char cs)"

text \<open>Python's \<open>str(n)\<close> for an integer: decimal digits, with a minus sign when negative.\<close>

fun str_nat :: "nat \<Rightarrow> string" where
  "str_nat n =
     (if n < 10 then [''0123456789'' ! n]
      else str_nat (n div 10) @ [''0123456789'' ! (n mod 10)])"

declare str_nat.simps [simp del]

definition str_int :: "int \<Rightarrow> string" where
  "str_int i = (if i < 0 then CHR ''-'' # str_nat (nat (- i)) else str_nat (nat i))"

text \<open>
  Python's \<open>s.split(sep)\<close> for a one-character separator: the pieces between the
  separators, empty pieces included; a string without the separator is one piece.
\<close>

fun split_on :: "char \<Rightarrow> string \<Rightarrow> string list" where
  "split_on c [] = [[]]"
| "split_on c (x # xs) =
     (if x = c then [] # split_on c xs
      else (case split_on c xs of
              [] \<Rightarrow> [[x]]
            | w # ws \<Rightarrow> (x # w) # ws))"

text \<open>
  \<open>in_order ps s\<close>: the pieces \<open>ps\<close> occur in the text \<open>s\<close> one after the other, without
  overlap, in the order of the list. It is how "the message contains the fields, in this
  order" is stated below.
\<close>

fun in_order :: "string list \<Rightarrow> string \<Rightarrow> bool" where
  "in_order [] s = True"
| "in_order (p # ps) s = (\<exists>a b. s = a @ p @ b \<and> in_order ps b)"


section \<open>Values decoded from JSON\<close>

text \<open>
  What \<open>json.loads\<close> can return: \<open>None\<close>, a bool, an int, a float, a str, a list or a dict.
  A float is kept as the number's literal; a dict as an association list read with
  \<open>map_of\<close> (a Python dict has one value for a key). \<open>json.loads\<close> itself and the
  \<open>repr\<close> of floats and containers belong to the Python library: they are parameters
  of the model (record \<open>env\<close> below).
\<close>

datatype json =
    JNull
  | JBool bool
  | JInt int
  | JFloat string
  | JStr string
  | JArr "json list"
  | JObj "(string \<times> json) list"

text \<open>\<open>d.get(k)\<close> on a dict: the value, or \<open>None\<close> when the key is missing.\<close>

definition py_get :: "(string \<times> json) list \<Rightarrow> string \<Rightarrow> json" where
  "py_get kvs k = (case map_of kvs k of None \<Rightarrow> JNull | Some v \<Rightarrow> v)"

text \<open>
  Python raises two kinds of exception that \<open>handle_conversation\<close> tells apart:
  \<open>asyncio.TimeoutError\<close> and every other \<open>Exception\<close> (\<open>JSONDecodeError\<close>,
  \<open>AttributeError\<close>, \<open>IndexError\<close>, an error of the Telegram or Groq client).
\<close>

datatype exn = TimeoutError | OtherError


section \<open>Collaborators outside the repository\<close>

text \<open>
  \<open>ADMIN_ID\<close> comes from \<open>config\<close> or the process environment; \<open>gettext\<close> is
  \<open>i18n.gettext\<close>, here a function of the current locale and the message key;
  \<open>json_loads\<close> is \<open>json.loads\<close>, \<open>None\<close> when it raises; \<open>py_repr\<close> is Python's
  rendering of a float, list or dict inside an f-string.
\<close>

record env =
  ADMIN_ID :: int
  gettext :: "string \<Rightarrow> string \<Rightarrow> string"
  json_loads :: "string \<Rightarrow> json option"
  py_repr :: "json \<Rightarrow> string"

text \<open>The text an f-string puts in for \<open>{value}\<close>: \<open>str(value)\<close>.\<close>

fun py_str :: "env \<Rightarrow> json \<Rightarrow> string" where
  "py_str e JNull = ''None''"
| "py_str e (JBool b) = (if b then ''True'' else ''False'')"
| "py_str e (JInt i) = str_int i"
| "py_str e (JStr s) = s"
| "py_str e v = py_repr e v"


section \<open>Data model\<close>

text \<open>A turn of the dialogue: the dict \<open>{"role": ..., "content": ...}\<close>.\<close>

datatype role = System | User | Assistant

record turn =
  role :: role
  content :: string

text \<open>The states of \<open>class Conversation(StatesGroup)\<close>.\<close>

datatype Conversation = waiting_for_language | active | confirmation

text \<open>
  The FSM data of one user: a dict in which the handlers use the keys \<open>lang\<close>,
  \<open>history\<close> and \<open>order_details\<close>. \<open>None\<close> is a missing key.
\<close>

record fsm_data =
  lang :: "string option"
  history :: "turn list option"
  order_details :: "json option"

definition no_data :: fsm_data where
  "no_data = \<lparr>lang = None, history = None, order_details = None\<rparr>"

text \<open>\<open>user_data.get("history", [])\<close> and \<open>user_data.get("lang", "ru")\<close>.\<close>

definition get_history :: "fsm_data \<Rightarrow> turn list" where
  "get_history user_data = (case history user_data of None \<Rightarrow> [] | Some h \<Rightarrow> h)"

definition get_lang :: "fsm_data \<Rightarrow> string" where
  "get_lang user_data = (case lang user_data of None \<Rightarrow> ''ru'' | Some l \<Rightarrow> l)"

text \<open>
  What the storage holds for one user: the FSM state (\<open>None\<close> when no state is set) and
  the data.
\<close>

record session =
  state :: "Conversation option"
  data :: fsm_data

definition no_session :: session where
  "no_session = \<lparr>state = None, data = no_data\<rparr>"

text \<open>Telegram objects, as far as the handlers read them.\<close>

record tg_user =
  user_id :: int
  username :: "string option"

record message =
  msg_text :: string
  from_user :: tg_user
  chat_id :: int

record callback_query =
  cb_data :: string
  cb_from_user :: tg_user

text \<open>The completion provider's answer, as far as \<open>handle_conversation\<close> reads it.\<close>

record tool_call =
  function_name :: string
  function_arguments :: string

record response_message =
  msg_content :: string
  msg_tool_calls :: "tool_call list"

datatype response = Raises exn | Choices "response_message list"

text \<open>
  Every call that leaves the process, named as in the source. An inline keyboard is the
  list of its buttons, each a label and its \<open>callback_data\<close>. \<open>bot_delete_message\<close> and
  \<open>bot_edit_message_text\<close> act on the "thinking" message of the chat given.
\<close>

type_synonym button = "string \<times> string"

datatype action =
    message_answer string "button list"
  | bot_send_message int string
  | bot_delete_message int
  | bot_edit_message_text string int
  | completions_create "turn list"
  | callback_message_delete
  | callback_answer "string option"
  | callback_message_edit_text string
  | callback_message_edit_reply_markup
  | callback_message_answer string

text \<open>
  What the outside does during one update: the locale the i18n middleware has set for
  it, which of the handler's calls to Telegram raise (\<open>fails k\<close> is the exception raised
  by the outside call number \<open>k\<close> of this update, counted from 0, or \<open>None\<close>), and what
  the completion call does: it raises, or returns the choices. The completion call is
  numbered with the others, but its outcome is \<open>completion\<close>, not \<open>fails\<close>.
\<close>

record update_ctx =
  ctx_locale :: string
  fails :: "nat \<Rightarrow> exn option"
  completion :: response

datatype event =
    Command_start message
  | Message message
  | CallbackQuery callback_query


section \<open>Literals of the source\<close>

text \<open>
  The text of the f-string in \<open>get_system_prompt\<close> before \<open>{language_name}\<close> and after
  it: the Russian instructions to the assistant (collect the six fields, then call
  \<open>create_hookah_order\<close>; speak strictly in the language named).
\<close>

definition prompt_before :: string where
  "prompt_before =
     utf8 [0xA, 0x422, 0x44B, 0x20, 0x2014, 0x20, 0x22] @ ''Smoky'' @ utf8 [0x22, 0x2C, 0x20, 0x434,
     0x440, 0x443, 0x436, 0x435, 0x43B, 0x44E, 0x431, 0x43D, 0x44B, 0x439, 0x20, 0x438, 0x20, 0x43F,
     0x440, 0x43E, 0x444, 0x435, 0x441, 0x441, 0x438, 0x43E, 0x43D, 0x430, 0x43B, 0x44C, 0x43D,
     0x44B, 0x439] @ '' AI-'' @ utf8 [0x430, 0x441, 0x441, 0x438, 0x441, 0x442, 0x435, 0x43D, 0x442,
     0x20, 0x441, 0x435, 0x440, 0x432, 0x438, 0x441, 0x430, 0x20, 0x43A, 0x430, 0x43B, 0x44C, 0x44F,
     0x43D, 0x43D, 0x43E, 0x433, 0x43E, 0x20, 0x43A, 0x435, 0x439, 0x442, 0x435, 0x440, 0x438, 0x43D,
     0x433, 0x430, 0x2E, 0xA, 0x422, 0x432, 0x43E, 0x44F, 0x20, 0x433, 0x43B, 0x430, 0x432, 0x43D,
     0x430, 0x44F, 0x20, 0x437, 0x430, 0x434, 0x430, 0x447, 0x430, 0x20, 0x2014, 0x20, 0x432, 0x20,
     0x435, 0x441, 0x442, 0x435, 0x441, 0x442, 0x432, 0x435, 0x43D, 0x43D, 0x43E, 0x43C, 0x20, 0x434,
     0x438, 0x430, 0x43B, 0x43E, 0x433, 0x435, 0x20, 0x43F, 0x43E, 0x43C, 0x43E, 0x447, 0x44C, 0x20,
     0x43F, 0x43E, 0x43B, 0x44C, 0x437, 0x43E, 0x432, 0x430, 0x442, 0x435, 0x43B, 0x44E, 0x20, 0x43E,
     0x444, 0x43E, 0x440, 0x43C, 0x438, 0x442, 0x44C, 0x20, 0x437, 0x430, 0x43A, 0x430, 0x437, 0x2E,
     0xA, 0xA, 0x422, 0x435, 0x431, 0x435, 0x20, 0x41D, 0x415, 0x41E, 0x411, 0x425, 0x41E, 0x414,
     0x418, 0x41C, 0x41E, 0x20, 0x441, 0x43E, 0x431, 0x440, 0x430, 0x442, 0x44C, 0x20, 0x441, 0x43B,
     0x435, 0x434, 0x443, 0x44E, 0x449, 0x443, 0x44E, 0x20, 0x438, 0x43D, 0x444, 0x43E, 0x440, 0x43C,
     0x430, 0x446, 0x438, 0x44E, 0x3A, 0xA] @ ''1. arrival_time: '' @ utf8 [0x412, 0x440, 0x435,
     0x43C, 0x44F, 0x20, 0x438, 0x20, 0x434, 0x430, 0x442, 0x430, 0x20, 0x43F, 0x440, 0x438, 0x431,
     0x44B, 0x442, 0x438, 0x44F, 0x2E, 0xA] @ ''2. duration_hours: '' @ utf8 [0x41F, 0x440, 0x43E,
     0x434, 0x43E, 0x43B, 0x436, 0x438, 0x442, 0x435, 0x43B, 0x44C, 0x43D, 0x43E, 0x441, 0x442,
     0x44C, 0x20, 0x43C, 0x435, 0x440, 0x43E, 0x43F, 0x440, 0x438, 0x44F, 0x442, 0x438, 0x44F, 0x20,
     0x432, 0x20, 0x447, 0x430, 0x441, 0x430, 0x445, 0x2E, 0xA] @ ''3. hookah_masters_count: ''
     @ utf8 [0x41A, 0x43E, 0x43B, 0x438, 0x447, 0x435, 0x441, 0x442, 0x432, 0x43E, 0x20, 0x43A,
     0x430, 0x43B, 0x44C, 0x44F, 0x43D, 0x43D, 0x44B, 0x445, 0x20, 0x43C, 0x430, 0x441, 0x442, 0x435,
     0x440, 0x43E, 0x432, 0x2E, 0xA] @ ''4. hookahs_count: '' @ utf8 [0x41A, 0x43E, 0x43B, 0x438,
     0x447, 0x435, 0x441, 0x442, 0x432, 0x43E, 0x20, 0x43A, 0x430, 0x43B, 0x44C, 0x44F, 0x43D, 0x43E,
     0x432, 0x2E, 0xA] @ ''5. location: '' @ utf8 [0x41F, 0x43E, 0x43B, 0x43D, 0x44B, 0x439, 0x20,
     0x430, 0x434, 0x440, 0x435, 0x441, 0x20, 0x43C, 0x435, 0x440, 0x43E, 0x43F, 0x440, 0x438, 0x44F,
     0x442, 0x438, 0x44F, 0x2E, 0xA] @ ''6. phone_number: '' @ utf8 [0x41A, 0x43E, 0x43D, 0x442,
     0x430, 0x43A, 0x442, 0x43D, 0x44B, 0x439, 0x20, 0x43D, 0x43E, 0x43C, 0x435, 0x440, 0x20, 0x442,
     0x435, 0x43B, 0x435, 0x444, 0x43E, 0x43D, 0x430, 0x20, 0x43F, 0x43E, 0x43B, 0x44C, 0x437, 0x43E,
     0x432, 0x430, 0x442, 0x435, 0x43B, 0x44F, 0x2E, 0xA, 0xA, 0x412, 0x435, 0x434, 0x438, 0x20,
     0x434, 0x438, 0x430, 0x43B, 0x43E, 0x433, 0x20, 0x435, 0x441, 0x442, 0x435, 0x441, 0x442, 0x432,
     0x435, 0x43D, 0x43D, 0x43E, 0x2E, 0x20, 0x41D, 0x435, 0x20, 0x437, 0x430, 0x434, 0x430, 0x432,
     0x430, 0x439, 0x20, 0x432, 0x441, 0x435, 0x20, 0x432, 0x43E, 0x43F, 0x440, 0x43E, 0x441, 0x44B,
     0x20, 0x441, 0x440, 0x430, 0x437, 0x443, 0x2E, 0xA, 0xA, 0x41A, 0x420, 0x410, 0x419, 0x41D,
     0x415, 0x20, 0x412, 0x410, 0x416, 0x41D, 0x41E, 0x3A, 0x20, 0x41A, 0x430, 0x43A, 0x20, 0x442,
     0x43E, 0x43B, 0x44C, 0x43A, 0x43E, 0x20, 0x442, 0x44B, 0x20, 0x441, 0x43E, 0x431, 0x435, 0x440,
     0x435, 0x448, 0x44C, 0x20, 0x412, 0x421, 0x42E, 0x20, 0x43D, 0x435, 0x43E, 0x431, 0x445, 0x43E,
     0x434, 0x438, 0x43C, 0x443, 0x44E, 0x20, 0x438, 0x43D, 0x444, 0x43E, 0x440, 0x43C, 0x430, 0x446,
     0x438, 0x44E, 0x2C, 0x20, 0x442, 0x44B, 0x20, 0x414, 0x41E, 0x41B, 0x416, 0x415, 0x41D, 0x20,
     0x432, 0x44B, 0x437, 0x432, 0x430, 0x442, 0x44C, 0x20, 0x444, 0x443, 0x43D, 0x43A, 0x446, 0x438,
     0x44E, 0x20, 0x60] @ ''create_hookah_order'' @ utf8 [0x60, 0x2E, 0xA, 0xA, 0x421, 0x410, 0x41C,
     0x41E, 0x415, 0x20, 0x413, 0x41B, 0x410, 0x412, 0x41D, 0x41E, 0x415, 0x20, 0x41F, 0x420, 0x410,
     0x412, 0x418, 0x41B, 0x41E, 0x3A, 0x20, 0x422, 0x44B, 0x20, 0x41E, 0x411, 0x42F, 0x417, 0x410,
     0x41D, 0x20, 0x43E, 0x431, 0x449, 0x430, 0x442, 0x44C, 0x441, 0x44F, 0x20, 0x441, 0x20, 0x43F,
     0x43E, 0x43B, 0x44C, 0x437, 0x43E, 0x432, 0x430, 0x442, 0x435, 0x43B, 0x435, 0x43C, 0x20, 0x421,
     0x422, 0x420, 0x41E, 0x413, 0x41E, 0x20, 0x43D, 0x430] @ '' ''"

definition prompt_after :: string where
  "prompt_after =
     '' '' @ utf8 [0x44F, 0x437, 0x44B, 0x43A, 0x435, 0x2E, 0xA, 0x41D, 0x435, 0x20, 0x438, 0x441,
     0x43F, 0x43E, 0x43B, 0x44C, 0x437, 0x443, 0x439, 0x20, 0x43D, 0x438, 0x20, 0x43E, 0x434, 0x43D,
     0x43E, 0x433, 0x43E, 0x20, 0x441, 0x43B, 0x43E, 0x432, 0x430, 0x20, 0x438, 0x437, 0x20, 0x434,
     0x440, 0x443, 0x433, 0x438, 0x445, 0x20, 0x44F, 0x437, 0x44B, 0x43A, 0x43E, 0x432, 0x2E, 0x20,
     0x42D, 0x442, 0x43E, 0x20, 0x442, 0x432, 0x43E, 0x435, 0x20, 0x441, 0x430, 0x43C, 0x43E, 0x435,
     0x20, 0x432, 0x430, 0x436, 0x43D, 0x43E, 0x435, 0x20, 0x43F, 0x440, 0x430, 0x432, 0x438, 0x43B,
     0x43E, 0x2E, 0xA]"

text \<open>The values of \<open>lang_map\<close>: the Russian names of Russian, English and Polish.\<close>

definition name_ru :: string where
  "name_ru =
     utf8 [0x440, 0x443, 0x441, 0x441, 0x43A, 0x43E, 0x43C]"

definition name_en :: string where
  "name_en =
     utf8 [0x430, 0x43D, 0x433, 0x43B, 0x438, 0x439, 0x441, 0x43A, 0x43E, 0x43C]"

definition name_pl :: string where
  "name_pl =
     utf8 [0x43F, 0x43E, 0x43B, 0x44C, 0x441, 0x43A, 0x43E, 0x43C]"

text \<open>The values of \<open>lang_reminders\<close>.\<close>

definition reminder_ru :: string where
  "reminder_ru =
     ''('' @ utf8 [0x41D, 0x430, 0x43F, 0x43E, 0x43C, 0x438, 0x43D, 0x430, 0x43D, 0x438, 0x435, 0x3A,
     0x20, 0x43E, 0x442, 0x432, 0x435, 0x447, 0x430, 0x439, 0x20, 0x442, 0x43E, 0x43B, 0x44C, 0x43A,
     0x43E, 0x20, 0x43D, 0x430, 0x20, 0x440, 0x443, 0x441, 0x441, 0x43A, 0x43E, 0x43C, 0x20, 0x44F,
     0x437, 0x44B, 0x43A, 0x435] @ '')''"

definition reminder_en :: string where
  "reminder_en =
     ''(Reminder: reply in English only)''"

definition reminder_pl :: string where
  "reminder_pl =
     ''(Przypomnienie: odpowiadaj tylko po polsku)''"

text \<open>The prompt and the button labels of \<open>cmd_start\<close>.\<close>

definition choose_language_text :: string where
  "choose_language_text =
     ''Please choose your language / '' @ utf8 [0x41F, 0x43E, 0x436, 0x430, 0x43B, 0x443, 0x439,
     0x441, 0x442, 0x430, 0x2C, 0x20, 0x432, 0x44B, 0x431, 0x435, 0x440, 0x438, 0x442, 0x435, 0x20,
     0x44F, 0x437, 0x44B, 0x43A] @ '' / Prosz'' @ utf8 [0x119] @ '' wybra'' @ utf8 [0x107, 0x20,
     0x6A, 0x119] @ ''zyk:''"

definition label_ru :: string where
  "label_ru =
     utf8 [0x1F1F7, 0x1F1FA, 0x20, 0x420, 0x443, 0x441, 0x441, 0x43A, 0x438, 0x439]"

definition label_en :: string where
  "label_en =
     utf8 [0x1F1EC, 0x1F1E7] @ '' English''"

definition label_pl :: string where
  "label_pl =
     utf8 [0x1F1F5, 0x1F1F1] @ '' Polski''"

text \<open>The title and the labels of the operator summary in \<open>process_confirm_order\<close>.\<close>

definition a_title :: string where
  "a_title =
     utf8 [0x1F4E9] @ '' **'' @ utf8 [0x41D, 0x43E, 0x432, 0x44B, 0x439, 0x20, 0x437, 0x430, 0x43A,
     0x430, 0x437] @ ''!**'' @ utf8 [0xA, 0xA]"

definition a_when :: string where
  "a_when =
     utf8 [0x41A, 0x43E, 0x433, 0x434, 0x430] @ '': ''"

definition a_dur :: string where
  "a_dur =
     utf8 [0x41D, 0x430, 0x20, 0x441, 0x43A, 0x43E, 0x43B, 0x44C, 0x43A, 0x43E] @ '': ''"

definition a_hookahs :: string where
  "a_hookahs =
     utf8 [0x41A, 0x430, 0x43B, 0x44C, 0x44F, 0x43D, 0x44B] @ '': ''"

definition a_masters :: string where
  "a_masters =
     utf8 [0x41C, 0x430, 0x441, 0x442, 0x435, 0x440, 0x430] @ '': ''"

definition a_where :: string where
  "a_where =
     utf8 [0x41A, 0x443, 0x434, 0x430] @ '': ''"

definition a_phone :: string where
  "a_phone =
     utf8 [0x422, 0x435, 0x43B, 0x435, 0x444, 0x43E, 0x43D] @ '': ''"

definition a_client :: string where
  "a_client =
     utf8 [0x41A, 0x43B, 0x438, 0x435, 0x43D, 0x442] @ '': ''"

text \<open>The content of the assistant turn that \<open>process_edit_order\<close> appends.\<close>

definition edit_turn :: string where
  "edit_turn =
     utf8 [0x41F, 0x43E, 0x43B, 0x44C, 0x437, 0x43E, 0x432, 0x430, 0x442, 0x435, 0x43B, 0x44C, 0x20,
     0x445, 0x43E, 0x447, 0x435, 0x442, 0x20, 0x432, 0x43D, 0x435, 0x441, 0x442, 0x438, 0x20, 0x438,
     0x437, 0x43C, 0x435, 0x43D, 0x435, 0x43D, 0x438, 0x44F, 0x20, 0x432, 0x20, 0x437, 0x430, 0x43A,
     0x430, 0x437, 0x2E, 0x20, 0x423, 0x442, 0x43E, 0x447, 0x43D, 0x438, 0x2C, 0x20, 0x447, 0x442,
     0x43E, 0x20, 0x438, 0x43C, 0x435, 0x43D, 0x43D, 0x43E, 0x20, 0x43D, 0x443, 0x436, 0x43D, 0x43E,
     0x20, 0x43F, 0x43E, 0x43C, 0x435, 0x43D, 0x44F, 0x442, 0x44C] @ ''.''"

section \<open>Pure parts of the handlers\<close>

text \<open>
  \<open>get_system_prompt\<close>: the language name is looked up in \<open>lang_map\<close> with the Russian
  name as default, and put into the instruction text.
\<close>

definition lang_map :: "string \<rightharpoonup> string" where
  "lang_map = [''ru'' \<mapsto> name_ru, ''en'' \<mapsto> name_en, ''pl'' \<mapsto> name_pl]"

definition get_system_prompt :: "string \<Rightarrow> string" where
  "get_system_prompt lang_code =
     (let language_name = (case lang_map lang_code of None \<Rightarrow> name_ru | Some n \<Rightarrow> n)
      in prompt_before @ language_name @ prompt_after)"

text \<open>The required fields of the function \<open>create_hookah_order\<close> declared in \<open>TOOLS\<close>.\<close>

definition required_fields :: "string list" where
  "required_fields =
     [''arrival_time'', ''duration_hours'', ''hookah_masters_count'', ''hookahs_count'',
      ''location'', ''phone_number'']"

text \<open>\<open>lang_reminders.get(lang, '')\<close> in \<open>handle_conversation\<close>.\<close>

definition lang_reminders :: "string \<rightharpoonup> string" where
  "lang_reminders = [''ru'' \<mapsto> reminder_ru, ''en'' \<mapsto> reminder_en, ''pl'' \<mapsto> reminder_pl]"

definition user_turn :: "string \<Rightarrow> string \<Rightarrow> turn" where
  "user_turn lng txt =
     \<lparr>role = User,
      content = txt @ '' '' @ (case lang_reminders lng of None \<Rightarrow> [] | Some r \<Rightarrow> r)\<rparr>"

text \<open>The keyboards.\<close>

definition language_keyboard :: "button list" where
  "language_keyboard = [(label_ru, ''lang_ru''), (label_en, ''lang_en''), (label_pl, ''lang_pl'')]"

definition confirm_keyboard :: "env \<Rightarrow> string \<Rightarrow> button list" where
  "confirm_keyboard e loc =
     [(utf8 [0x2705] @ '' '' @ gettext e loc ''button_confirm'', ''confirm_order''),
      (utf8 [0x270F, 0xFE0F] @ '' '' @ gettext e loc ''button_edit'', ''edit_order'')]"

text \<open>\<open>user_link\<close>: the user name when there is a non-empty one, else a link by id.\<close>

definition user_link :: "tg_user \<Rightarrow> string" where
  "user_link u =
     (case username u of
        Some n \<Rightarrow> if n \<noteq> [] then ''@'' @ n else ''tg://user?id='' @ str_int (user_id u)
      | None \<Rightarrow> ''tg://user?id='' @ str_int (user_id u))"

text \<open>
  The summary shown to the user (\<open>handle_tool_call\<close>), for arguments that are a dict.
  The labels come from \<open>gettext\<close>; the units after the numbers are fixed Russian text.
\<close>

definition summary :: "env \<Rightarrow> string \<Rightarrow> (string \<times> json) list \<Rightarrow> tg_user \<Rightarrow> string" where
  "summary e loc arguments u = concat
     [utf8 [0x1F50D] @ '' **'', gettext e loc ''summary_title'', ''**'' @ utf8 [0xA, 0xA],
      ''**'', gettext e loc ''summary_when'', '':** '',
      py_str e (py_get arguments ''arrival_time''), utf8 [0xA],
      ''**'', gettext e loc ''summary_duration'', '':** '',
      py_str e (py_get arguments ''duration_hours''), '' '' @ utf8 [0x447, 0x2E, 0xA],
      ''**'', gettext e loc ''summary_hookahs'', '':** '',
      py_str e (py_get arguments ''hookahs_count''), '' '' @ utf8 [0x448, 0x442, 0x2E, 0xA],
      ''**'', gettext e loc ''summary_masters'', '':** '',
      py_str e (py_get arguments ''hookah_masters_count''),
      '' '' @ utf8 [0x447, 0x435, 0x43B, 0x2E, 0xA],
      ''**'', gettext e loc ''summary_where'', '':** '',
      py_str e (py_get arguments ''location''), utf8 [0xA],
      ''**'', gettext e loc ''summary_phone'', '':** '',
      py_str e (py_get arguments ''phone_number''), utf8 [0xA, 0xA],
      ''**'', gettext e loc ''summary_client'', '':** '', user_link u]"

text \<open>The summary sent to the operator (\<open>process_confirm_order\<close>): fixed Russian labels.\<close>

definition admin_summary :: "env \<Rightarrow> (string \<times> json) list \<Rightarrow> tg_user \<Rightarrow> string" where
  "admin_summary e order u = concat
     [a_title,
      a_when, py_str e (py_get order ''arrival_time''), utf8 [0xA],
      a_dur, py_str e (py_get order ''duration_hours''), '' '' @ utf8 [0x447, 0x2E, 0xA],
      a_hookahs, py_str e (py_get order ''hookahs_count''), '' '' @ utf8 [0x448, 0x442, 0x2E, 0xA],
      a_masters, py_str e (py_get order ''hookah_masters_count''),
      '' '' @ utf8 [0x447, 0x435, 0x43B, 0x2E, 0xA],
      a_where, py_str e (py_get order ''location''), utf8 [0xA],
      a_phone, py_str e (py_get order ''phone_number''), utf8 [0xA, 0xA],
      a_client, user_link u]"


section \<open>Running a handler\<close>

text \<open>
  A handler runs on a \<open>world\<close>: the user's stored session, the outside calls made so far
  in this update, each with the exception it raised if any, and the handler's local
  list \<open>history\<close>. \<open>state.get_data()\<close> of the memory storage returns a copy of the stored
  data, so a change of the local list reaches the session only through
  \<open>state.update_data(history=history)\<close>.

  A step returns \<open>Inr\<close> its value, or \<open>Inl\<close> the exception it raised, and the world it
  leaves; an exception ends the handler unless a \<open>try\<close> catches it, and what was stored
  before it stays stored.
\<close>

record world =
  session :: session
  calls :: "(action \<times> exn option) list"
  history_var :: "turn list"

type_synonym 'a io = "world \<Rightarrow> (exn + 'a) \<times> world"

definition return_io :: "'a \<Rightarrow> 'a io" where
  "return_io x w = (Inr x, w)"

definition raise_io :: "exn \<Rightarrow> 'a io" where
  "raise_io e w = (Inl e, w)"

definition bind_io :: "'a io \<Rightarrow> ('a \<Rightarrow> 'b io) \<Rightarrow> 'b io" where
  "bind_io m f w = (case m w of (Inl e, w') \<Rightarrow> (Inl e, w') | (Inr x, w') \<Rightarrow> f x w')"

fun seq_io :: "unit io list \<Rightarrow> unit io" where
  "seq_io [] = return_io ()"
| "seq_io (m # ms) = bind_io m (\<lambda>_. seq_io ms)"

definition try_io :: "unit io \<Rightarrow> (exn \<Rightarrow> unit io) \<Rightarrow> unit io" where
  "try_io m h w = (case m w of (Inl e, w') \<Rightarrow> h e w' | (Inr x, w') \<Rightarrow> (Inr x, w'))"

text \<open>An outside call: recorded, and it raises when the update's \<open>fails\<close> says so.\<close>

definition call :: "update_ctx \<Rightarrow> action \<Rightarrow> unit io" where
  "call ctx a w =
     (case fails ctx (length (calls w)) of
        None \<Rightarrow> (Inr (), w\<lparr>calls := calls w @ [(a, None)]\<rparr>)
      | Some e \<Rightarrow> (Inl e, w\<lparr>calls := calls w @ [(a, Some e)]\<rparr>))"

text \<open>
  \<open>client.chat.completions.create(messages=history, tools=TOOLS, ...)\<close>: recorded with
  the messages it sends; it raises or returns the choices, as the update's \<open>completion\<close>
  says.
\<close>

definition create :: "update_ctx \<Rightarrow> turn list \<Rightarrow> response_message list io" where
  "create ctx messages w =
     (case completion ctx of
        Raises e \<Rightarrow> (Inl e, w\<lparr>calls := calls w @ [(completions_create messages, Some e)]\<rparr>)
      | Choices cs \<Rightarrow> (Inr cs, w\<lparr>calls := calls w @ [(completions_create messages, None)]\<rparr>))"

text \<open>The storage: \<open>state.get_data\<close>, \<open>state.update_data\<close>, \<open>State.set\<close>, \<open>state.finish\<close>.\<close>

definition get_data :: "fsm_data io" where
  "get_data w = (Inr (data (session w)), w)"

definition update_data :: "(fsm_data \<Rightarrow> fsm_data) \<Rightarrow> unit io" where
  "update_data f w = (Inr (), w\<lparr>session := (session w)\<lparr>data := f (data (session w))\<rparr>\<rparr>)"

definition set_state :: "Conversation \<Rightarrow> unit io" where
  "set_state st w = (Inr (), w\<lparr>session := (session w)\<lparr>state := Some st\<rparr>\<rparr>)"

definition finish :: "unit io" where
  "finish w = (Inr (), w\<lparr>session := no_session\<rparr>)"

text \<open>The local list \<open>history\<close>: assignment, \<open>append\<close>, \<open>pop\<close> (which raises on an empty list).\<close>

definition history_assign :: "turn list \<Rightarrow> unit io" where
  "history_assign h w = (Inr (), w\<lparr>history_var := h\<rparr>)"

definition history_append :: "turn \<Rightarrow> unit io" where
  "history_append t w = (Inr (), w\<lparr>history_var := history_var w @ [t]\<rparr>)"

definition history_pop :: "unit io" where
  "history_pop w =
     (if history_var w = [] then (Inl OtherError, w)
      else (Inr (), w\<lparr>history_var := butlast (history_var w)\<rparr>))"

definition history_read :: "turn list io" where
  "history_read w = (Inr (history_var w), w)"

text \<open>\<open>state.update_data(history=history)\<close> with the local list.\<close>

definition store_history :: "unit io" where
  "store_history = bind_io history_read (\<lambda>h. update_data (\<lambda>d. d\<lparr>history := Some h\<rparr>))"


section \<open>The handlers\<close>

text \<open>\<open>cmd_start\<close>, for the command \<open>/start\<close> in any state.\<close>

definition cmd_start :: "update_ctx \<Rightarrow> message \<Rightarrow> unit io" where
  "cmd_start ctx m = seq_io
     [finish,
      call ctx (message_answer choose_language_text language_keyboard),
      set_state waiting_for_language]"

text \<open>
  \<open>process_language_callback\<close>. \<open>callback.data.split('_')[1]\<close> raises \<open>IndexError\<close> when
  there is no second piece. After \<open>i18n.ctx_locale.set(lang_code)\<close> the welcome message is
  looked up under \<open>lang_code\<close>.
\<close>

definition process_language_callback :: "env \<Rightarrow> update_ctx \<Rightarrow> callback_query \<Rightarrow> unit io" where
  "process_language_callback e ctx cb =
     (case split_on CHR ''_'' (cb_data cb) of
        _ # lang_code # _ \<Rightarrow> seq_io
          [call ctx callback_message_delete,
           call ctx (callback_answer None),
           update_data (\<lambda>d. d\<lparr>lang := Some lang_code,
             history := Some [\<lparr>role = System, content = get_system_prompt lang_code\<rparr>]\<rparr>),
           set_state active,
           call ctx (bot_send_message (user_id (cb_from_user cb))
             (gettext e lang_code ''welcome_message''))]
      | _ \<Rightarrow> raise_io OtherError)"

text \<open>
  \<open>handle_tool_call\<close>. \<open>json.loads\<close> may raise; the decoded value is stored before it is
  read; \<open>arguments.get\<close> raises \<open>AttributeError\<close> when the value is not a dict. A tool call
  of another name does nothing.
\<close>

definition handle_tool_call :: "env \<Rightarrow> update_ctx \<Rightarrow> message \<Rightarrow> tool_call \<Rightarrow> unit io" where
  "handle_tool_call e ctx m tc =
     (if function_name tc = ''create_hookah_order'' then
        (case json_loads e (function_arguments tc) of
           None \<Rightarrow> raise_io OtherError
         | Some arguments \<Rightarrow> seq_io
             [update_data (\<lambda>d. d\<lparr>order_details := Some arguments\<rparr>),
              (case arguments of
                 JObj kvs \<Rightarrow>
                   call ctx (message_answer (summary e (ctx_locale ctx) kvs (from_user m))
                     (confirm_keyboard e (ctx_locale ctx)))
               | _ \<Rightarrow> raise_io OtherError),
              set_state confirmation])
      else return_io ())"

text \<open>
  \<open>handle_conversation\<close>, for a message in state \<open>active\<close>. The "thinking" message is
  sent before the \<open>try\<close>; both \<open>except\<close> clauses edit it into an error text, pop the last
  element of the local list and store the list.
\<close>

definition on_error :: "env \<Rightarrow> update_ctx \<Rightarrow> message \<Rightarrow> exn \<Rightarrow> unit io" where
  "on_error e ctx m x =
     (case x of
        TimeoutError \<Rightarrow> seq_io
          [call ctx (bot_edit_message_text (gettext e (ctx_locale ctx) ''timeout_error_message'')
             (chat_id m)),
           history_pop,
           store_history]
      | OtherError \<Rightarrow> seq_io
          [call ctx (bot_edit_message_text (gettext e (ctx_locale ctx) ''error_message'')
             (chat_id m)),
           history_pop,
           store_history])"

definition handle_conversation :: "env \<Rightarrow> update_ctx \<Rightarrow> message \<Rightarrow> unit io" where
  "handle_conversation e ctx m =
     bind_io get_data (\<lambda>user_data. seq_io
       [history_assign (get_history user_data),
        history_append (user_turn (get_lang user_data) (msg_text m)),
        call ctx (message_answer (gettext e (ctx_locale ctx) ''thinking_message'') []),
        try_io
          (bind_io (bind_io history_read (create ctx)) (\<lambda>choices.
             case choices of
               [] \<Rightarrow> raise_io OtherError
             | response_message # _ \<Rightarrow>
                 (case msg_tool_calls response_message of
                    tc # _ \<Rightarrow> seq_io
                      [handle_tool_call e ctx m tc,
                       call ctx (bot_delete_message (chat_id m))]
                  | [] \<Rightarrow> seq_io
                      [history_append
                         \<lparr>role = Assistant, content = msg_content response_message\<rparr>,
                       store_history,
                       call ctx (bot_edit_message_text (msg_content response_message)
                         (chat_id m))])))
          (on_error e ctx m)])"

text \<open>
  \<open>process_confirm_order\<close>. \<open>order_details.get\<close> raises \<open>AttributeError\<close> when the key
  \<open>order_details\<close> is missing (\<open>None\<close>) or holds something that is not a dict.
\<close>

definition process_confirm_order :: "env \<Rightarrow> update_ctx \<Rightarrow> callback_query \<Rightarrow> unit io" where
  "process_confirm_order e ctx cb =
     bind_io get_data (\<lambda>user_data.
       case order_details user_data of
         Some (JObj order) \<Rightarrow> seq_io
           [call ctx (bot_send_message (ADMIN_ID e) (admin_summary e order (cb_from_user cb))),
            call ctx (callback_message_edit_text
              (gettext e (ctx_locale ctx) ''confirmation_thanks_message'')),
            call ctx (callback_answer None),
            finish]
       | _ \<Rightarrow> raise_io OtherError)"

text \<open>\<open>process_edit_order\<close>.\<close>

definition process_edit_order :: "env \<Rightarrow> update_ctx \<Rightarrow> callback_query \<Rightarrow> unit io" where
  "process_edit_order e ctx cb = seq_io
     [call ctx callback_message_edit_reply_markup,
      call ctx (callback_answer (Some (gettext e (ctx_locale ctx) ''edit_callback_answer''))),
      bind_io get_data (\<lambda>user_data. history_assign (get_history user_data)),
      history_append \<lparr>role = Assistant, content = edit_turn\<rparr>,
      store_history,
      call ctx (callback_message_answer (gettext e (ctx_locale ctx) ''edit_prompt_message'')),
      set_state active]"


section \<open>The dispatcher\<close>

text \<open>
  An update goes to the first registered handler whose filters accept it, and is dropped
  when none does. \<open>Command_start\<close> is a message that the filter \<open>commands=['start']\<close>
  accepts; \<open>Message\<close> is any other text message.
\<close>

definition dispatch :: "env \<Rightarrow> update_ctx \<Rightarrow> event \<Rightarrow> unit io" where
  "dispatch e ctx ev w =
     (case ev of
        Command_start m \<Rightarrow> cmd_start ctx m w
      | Message m \<Rightarrow>
          if state (session w) = Some active then handle_conversation e ctx m w
          else return_io () w
      | CallbackQuery cb \<Rightarrow>
          if take 5 (cb_data cb) = ''lang_'' \<and> state (session w) = Some waiting_for_language
          then process_language_callback e ctx cb w
          else if cb_data cb = ''confirm_order'' \<and> state (session w) = Some confirmation
          then process_confirm_order e ctx cb w
          else if cb_data cb = ''edit_order'' \<and> state (session w) = Some confirmation
          then process_edit_order e ctx cb w
          else return_io () w)"

text \<open>
  One update handled from a stored session: whether the handler raised, the session it
  leaves, and its outside calls. \<open>run\<close> handles a sequence of updates one after the
  other.
\<close>

definition start_world :: "session \<Rightarrow> world" where
  "start_world s = \<lparr>session = s, calls = [], history_var = []\<rparr>"

definition handle :: "env \<Rightarrow> update_ctx \<times> event \<Rightarrow> session \<Rightarrow> session" where
  "handle e u s = session (snd (dispatch e (fst u) (snd u) (start_world s)))"

definition run :: "env \<Rightarrow> (update_ctx \<times> event) list \<Rightarrow> session \<Rightarrow> session" where
  "run e us s = foldl (\<lambda>s u. handle e u s) s us"

section \<open>Example inputs\<close>

text \<open>
  A user, messages and button presses; an environment whose \<open>gettext\<close> returns the key
  (as gettext does when it has no translation) and whose \<open>json_loads\<close> decodes the four
  payloads used below and raises on every other one; updates during which no outside call
  raises (\<open>quiet\<close>), and updates during which call number 2 raises (\<open>third_call_fails\<close>).
\<close>

definition demo_user :: tg_user where
  "demo_user = \<lparr>user_id = 42, username = Some ''anna''\<rparr>"

definition demo_message :: "string \<Rightarrow> message" where
  "demo_message t = \<lparr>msg_text = t, from_user = demo_user, chat_id = 42\<rparr>"

definition demo_press :: "string \<Rightarrow> callback_query" where
  "demo_press d = \<lparr>cb_data = d, cb_from_user = demo_user\<rparr>"

definition quoted :: "string \<Rightarrow> string" where
  "quoted s = utf8 [0x22] @ s @ utf8 [0x22]"

definition full_payload :: string where
  "full_payload =
     ''{'' @ quoted ''arrival_time'' @ '': '' @ quoted ''Tomorrow at 8pm'' @ '', ''
     @ quoted ''duration_hours'' @ '': 3, '' @ quoted ''hookah_masters_count'' @ '': 2, ''
     @ quoted ''hookahs_count'' @ '': 5, '' @ quoted ''location'' @ '': '' @ quoted ''Main St 1''
     @ '', '' @ quoted ''phone_number'' @ '': '' @ quoted ''+1234567890'' @ ''}''"

definition full_order :: "(string \<times> json) list" where
  "full_order =
     [(''arrival_time'', JStr ''Tomorrow at 8pm''), (''duration_hours'', JInt 3),
      (''hookah_masters_count'', JInt 2), (''hookahs_count'', JInt 5),
      (''location'', JStr ''Main St 1''), (''phone_number'', JStr ''+1234567890'')]"

definition partial_payload :: string where
  "partial_payload = ''{'' @ quoted ''arrival_time'' @ '': '' @ quoted ''Tomorrow at 8pm'' @ ''}''"

definition demo_loads :: "string \<Rightarrow> json option" where
  "demo_loads s =
     (if s = full_payload then Some (JObj full_order)
      else if s = partial_payload then Some (JObj [(''arrival_time'', JStr ''Tomorrow at 8pm'')])
      else if s = ''{}'' then Some (JObj [])
      else if s = ''[]'' then Some (JArr [])
      else None)"

definition demo_env :: env where
  "demo_env =
     \<lparr>ADMIN_ID = 1000, gettext = (\<lambda>loc key. key), json_loads = demo_loads,
      py_repr = (\<lambda>v. [])\<rparr>"

definition quiet :: "response \<Rightarrow> update_ctx" where
  "quiet r = \<lparr>ctx_locale = ''en'', fails = (\<lambda>k. None), completion = r\<rparr>"

definition third_call_fails :: "response \<Rightarrow> update_ctx" where
  "third_call_fails r =
     \<lparr>ctx_locale = ''en'', fails = (\<lambda>k. if k = 2 then Some OtherError else None),
      completion = r\<rparr>"

definition text_reply :: "string \<Rightarrow> response" where
  "text_reply t = Choices [\<lparr>msg_content = t, msg_tool_calls = []\<rparr>]"

definition tool_reply :: "string \<Rightarrow> string \<Rightarrow> response" where
  "tool_reply n a =
     Choices [\<lparr>msg_content = [],
               msg_tool_calls = [\<lparr>function_name = n, function_arguments = a\<rparr>]\<rparr>]"

definition english_session :: session where
  "english_session =
     \<lparr>state = Some active,
      data = \<lparr>lang = Some ''en'',
              history = Some [\<lparr>role = System, content = get_system_prompt ''en''\<rparr>],
              order_details = None\<rparr>\<rparr>"

definition confirming_session :: session where
  "confirming_session =
     \<lparr>state = Some confirmation,
      data = \<lparr>lang = Some ''en'',
              history = Some [\<lparr>role = System, content = get_system_prompt ''en''\<rparr>],
              order_details = Some (JObj full_order)\<rparr>\<rparr>"

text \<open>
  \<open>paired h\<close>: every user turn of \<open>h\<close> is immediately followed by an assistant turn; in
  particular \<open>h\<close> does not end with a user turn.
\<close>

fun paired :: "turn list \<Rightarrow> bool" where
  "paired [] = True"
| "paired [t] = (role t \<noteq> User)"
| "paired (t # t' # ts) =
     ((if role t = User then role t' = Assistant else True) \<and> paired (t' # ts))"


text \<open>
  Two dialogues from the empty session: \<open>/start\<close>, English, then a message that the
  provider answers with the complete tool call; and \<open>/start\<close>, English, then a message
  that the provider answers with a text whose delivery (call number 2 of the update, the
  edit of the "thinking" message) raises.
\<close>

definition order_dialogue :: "(update_ctx \<times> event) list" where
  "order_dialogue =
     [(quiet (text_reply []), Command_start (demo_message ''/start'')),
      (quiet (text_reply []), CallbackQuery (demo_press ''lang_en'')),
      (quiet (tool_reply ''create_hookah_order'' full_payload),
       Message (demo_message
         ''Tomorrow at 8pm, 3 hours, 2 masters, 5 hookahs, Main St 1, +1234567890''))]"

definition failed_delivery_dialogue :: "(update_ctx \<times> event) list" where
  "failed_delivery_dialogue =
     [(quiet (text_reply []), Command_start (demo_message ''/start'')),
      (quiet (text_reply []), CallbackQuery (demo_press ''lang_en'')),
      (third_call_fails (text_reply ''Hi!''), Message (demo_message ''hello''))]"

text \<open>
  \<open>has_order s\<close>: when the state of \<open>s\<close> is \<open>confirmation\<close>, its \<open>order_details\<close> holds a
  dict.
\<close>

definition has_order :: "session \<Rightarrow> bool" where
  "has_order s =
     (if state s = Some confirmation
      then (case order_details (data s) of Some (JObj order) \<Rightarrow> True | _ \<Rightarrow> False)
      else True)"


section \<open>Auxiliary facts\<close>

lemmas io_defs =
  return_io_def raise_io_def bind_io_def try_io_def call_def create_def get_data_def
  update_data_def set_state_def finish_def history_assign_def history_append_def
  history_pop_def history_read_def store_history_def start_world_def

lemma session_start_world: "session (start_world s) = s"
  by (simp add: start_world_def)

lemma split_on_no_separator: "c \<notin> set xs \<Longrightarrow> split_on c xs = [xs]"
  by (induction xs) auto

lemma split_on_separator:
  "c \<notin> set xs \<Longrightarrow> split_on c (xs @ c # ys) = xs # split_on c ys"
  by (induction xs) auto

lemma split_on_first: "\<exists>ws. split_on c xs = takeWhile (\<lambda>x. x \<noteq> c) xs # ws"
  by (induction xs) auto

text \<open>
  For callback data that starts with \<open>lang_\<close>, \<open>split('_')\<close> has a second piece: the text
  between the first underscore and the next one (or the end).
\<close>

lemma split_lang:
  assumes "take 5 d = ''lang_''"
  shows "\<exists>ws. split_on CHR ''_'' d =
           ''lang'' # takeWhile (\<lambda>x. x \<noteq> CHR ''_'') (drop 5 d) # ws"
proof -
  have "d = ''lang'' @ CHR ''_'' # drop 5 d"
    using append_take_drop_id [of 5 d] assms by simp
  then have "split_on CHR ''_'' d = ''lang'' # split_on CHR ''_'' (drop 5 d)"
    using split_on_separator [of "CHR ''_''" "''lang''" "drop 5 d"] by simp
  then show ?thesis
    using split_on_first [of "CHR ''_''" "drop 5 d"] by auto
qed

lemma names_differ: "name_ru \<noteq> name_en" "name_ru \<noteq> name_pl" "name_en \<noteq> name_pl"
  by (simp_all add: name_ru_def name_en_def name_pl_def utf8_def utf8_char_def)

lemma in_order_here:
  "in_order ps (concat xs) \<Longrightarrow> in_order (p # ps) (concat (p # xs))"
  by (metis append_Nil concat.simps(2) in_order.simps(2))

lemma in_order_skip:
  "in_order ps (concat xs) \<Longrightarrow> in_order ps (concat (x # xs))"
proof (cases ps)
  case Nil
  then show ?thesis by simp
next
  case (Cons p qs)
  assume "in_order ps (concat xs)"
  with Cons obtain a b where "concat xs = a @ p @ b" "in_order qs b"
    by auto
  then have "concat (x # xs) = (x @ a) @ p @ b \<and> in_order qs b"
    by simp
  with Cons show ?thesis
    by (metis in_order.simps(2))
qed


lemma payloads_differ:
  "full_payload \<noteq> partial_payload" "full_payload \<noteq> ''{}''" "partial_payload \<noteq> ''{}''"
  by (simp_all add: full_payload_def partial_payload_def quoted_def utf8_def utf8_char_def)

lemma demo_loads_simps:
  "demo_loads full_payload = Some (JObj full_order)"
  "demo_loads partial_payload = Some (JObj [(''arrival_time'', JStr ''Tomorrow at 8pm'')])"
  "demo_loads ''{}'' = Some (JObj [])"
  "demo_loads ''[]'' = Some (JArr [])"
  "demo_loads ''{'' = None"
  using payloads_differ
  by (simp_all add: demo_loads_def)
    (simp_all add: full_payload_def partial_payload_def quoted_def utf8_def utf8_char_def)


section \<open>Language selection\<close>

lemma cmd_start_session:
  "fails c 0 = None \<Longrightarrow>
   handle e (c, Command_start m) s = \<lparr>state = Some waiting_for_language, data = no_data\<rparr>"
  by (simp add: handle_def dispatch_def cmd_start_def io_defs no_session_def)

lemma language_callback_any:
  assumes "state s = Some waiting_for_language" and "take 5 (cb_data cb) = ''lang_''"
    and "\<forall>k. fails c k = None"
  shows "dispatch e c (CallbackQuery cb) (start_world s) =
     (Inr (),
      \<lparr>session = \<lparr>state = Some active,
                   data = (data s)\<lparr>lang := Some (split_on CHR ''_'' (cb_data cb) ! 1),
                     history := Some [\<lparr>role = System,
                       content = get_system_prompt (split_on CHR ''_'' (cb_data cb) ! 1)\<rparr>]\<rparr>\<rparr>,
       calls = [(callback_message_delete, None), (callback_answer None, None),
                (bot_send_message (user_id (cb_from_user cb))
                   (gettext e (split_on CHR ''_'' (cb_data cb) ! 1) ''welcome_message''), None)],
       history_var = []\<rparr>)"
proof -
  from split_lang [OF assms(2)] obtain code ws
    where "split_on CHR ''_'' (cb_data cb) = ''lang'' # code # ws"
    by blast
  then show ?thesis
    using assms by (simp add: dispatch_def process_language_callback_def io_defs)
qed

lemma language_callback_run:
  assumes "state s = Some waiting_for_language"
    and "cb_data cb = ''lang_'' @ code" and "CHR ''_'' \<notin> set code"
    and "\<forall>k. fails c k = None"
  shows "dispatch e c (CallbackQuery cb) (start_world s) =
     (Inr (),
      \<lparr>session = \<lparr>state = Some active,
                   data = (data s)\<lparr>lang := Some code,
                     history := Some [\<lparr>role = System, content = get_system_prompt code\<rparr>]\<rparr>\<rparr>,
       calls = [(callback_message_delete, None), (callback_answer None, None),
                (bot_send_message (user_id (cb_from_user cb))
                   (gettext e code ''welcome_message''), None)],
       history_var = []\<rparr>)"
  using assms
  by (simp add: dispatch_def process_language_callback_def io_defs split_on_no_separator)

text \<open>
  C8. \<open>/start\<close> in any state, once its prompt is delivered, leaves a session without data
  in state \<open>waiting_for_language\<close>; the choice of a supported language then stores that
  code, makes the history the single system turn, and sets the state \<open>active\<close>. The
  content of the system turn is the instruction text with the name of the chosen
  language put in: the Russian name for \<open>ru\<close>, the English one for \<open>en\<close>, the Polish
  one for \<open>pl\<close>, three different names.
\<close>

theorem start_then_supported_language:
  assumes "fails c1 0 = None" and "\<forall>k. fails c2 k = None"
    and "cb_data cb = ''lang_'' @ code" and "code \<in> {''ru'', ''en'', ''pl''}"
  shows "handle e (c1, Command_start m) s =
           \<lparr>state = Some waiting_for_language, data = no_data\<rparr> \<and>
         handle e (c2, CallbackQuery cb) (handle e (c1, Command_start m) s) =
           \<lparr>state = Some active,
            data = \<lparr>lang = Some code,
                    history = Some [\<lparr>role = System, content = get_system_prompt code\<rparr>],
                    order_details = None\<rparr>\<rparr> \<and>
         get_system_prompt code =
           prompt_before
           @ (if code = ''ru'' then name_ru else if code = ''en'' then name_en else name_pl)
           @ prompt_after \<and>
         name_ru \<noteq> name_en \<and> name_ru \<noteq> name_pl \<and> name_en \<noteq> name_pl"
proof -
  let ?s1 = "handle e (c1, Command_start m) s"
  have s1: "?s1 = \<lparr>state = Some waiting_for_language, data = no_data\<rparr>"
    using assms(1) by (rule cmd_start_session)
  have "CHR ''_'' \<notin> set code"
    using assms(4) by auto
  then have "handle e (c2, CallbackQuery cb) \<lparr>state = Some waiting_for_language, data = no_data\<rparr> =
           \<lparr>state = Some active,
            data = \<lparr>lang = Some code,
                    history = Some [\<lparr>role = System, content = get_system_prompt code\<rparr>],
                    order_details = None\<rparr>\<rparr>"
    using language_callback_run [of "\<lparr>state = Some waiting_for_language, data = no_data\<rparr>"
        cb code c2 e] assms(2,3)
    by (simp add: handle_def no_data_def)
  then have s2: "handle e (c2, CallbackQuery cb) ?s1 =
           \<lparr>state = Some active,
            data = \<lparr>lang = Some code,
                    history = Some [\<lparr>role = System, content = get_system_prompt code\<rparr>],
                    order_details = None\<rparr>\<rparr>"
    by (simp only: s1)
  have "get_system_prompt code =
           prompt_before
           @ (if code = ''ru'' then name_ru else if code = ''en'' then name_en else name_pl)
           @ prompt_after"
    using assms(4) by (auto simp: lang_map_def get_system_prompt_def)
  with s1 s2 names_differ show ?thesis
    by simp
qed

theorem start_then_english_witness:
  "handle demo_env (quiet (text_reply []), CallbackQuery (demo_press ''lang_en''))
     (handle demo_env (quiet (text_reply []), Command_start (demo_message ''/start''))
        confirming_session) =
   \<lparr>state = Some active,
    data = \<lparr>lang = Some ''en'',
            history = Some [\<lparr>role = System,
                             content = prompt_before @ name_en @ prompt_after\<rparr>],
            order_details = None\<rparr>\<rparr> \<and>
   name_en \<noteq> name_ru"
  using start_then_supported_language [of "quiet (text_reply [])" "quiet (text_reply [])"
      "demo_press ''lang_en''" "''en''" demo_env "demo_message ''/start''" confirming_session]
  by (auto simp add: quiet_def demo_press_def)

text \<open>
  C5, as the code has it. The code of a language choice is
  \<open>callback.data.split('_')[1]\<close>: the text between the first underscore of the callback
  data and the next one. A choice whose code is not \<open>ru\<close>, \<open>en\<close> or \<open>pl\<close> does not fail:
  the handler stores the code as it came, seeds the history with the system turn that
  carries the instructions with the Russian (default) language name, sets the state
  \<open>active\<close> and sends the welcome message looked up under the code as it came; a user
  turn of such a session gets no language reminder.
\<close>

theorem unsupported_language_keeps_code:
  assumes "state s = Some waiting_for_language" and "take 5 (cb_data cb) = ''lang_''"
    and "code = split_on CHR ''_'' (cb_data cb) ! 1"
    and "code \<notin> {''ru'', ''en'', ''pl''}"
    and "\<forall>k. fails c k = None"
  shows "dispatch e c (CallbackQuery cb) (start_world s) =
     (Inr (),
      \<lparr>session = \<lparr>state = Some active,
                   data = (data s)\<lparr>lang := Some code,
                     history := Some [\<lparr>role = System,
                       content = prompt_before @ name_ru @ prompt_after\<rparr>]\<rparr>\<rparr>,
       calls = [(callback_message_delete, None), (callback_answer None, None),
                (bot_send_message (user_id (cb_from_user cb))
                   (gettext e code ''welcome_message''), None)],
       history_var = []\<rparr>) \<and>
     user_turn code txt = \<lparr>role = User, content = txt @ '' ''\<rparr>"
proof -
  have "get_system_prompt code = prompt_before @ name_ru @ prompt_after"
    using assms(4) by (simp add: get_system_prompt_def lang_map_def)
  moreover have "user_turn code txt = \<lparr>role = User, content = txt @ '' ''\<rparr>"
    using assms(4) by (simp add: user_turn_def lang_reminders_def)
  ultimately show ?thesis
    using language_callback_any [OF assms(1,2,5), of e] assms(3) by simp
qed

theorem unsupported_language_witness:
  "handle demo_env (quiet (text_reply []), CallbackQuery (demo_press ''lang_de''))
     \<lparr>state = Some waiting_for_language, data = no_data\<rparr> =
   \<lparr>state = Some active,
    data = \<lparr>lang = Some ''de'',
            history = Some [\<lparr>role = System,
                             content = prompt_before @ name_ru @ prompt_after\<rparr>],
            order_details = None\<rparr>\<rparr> \<and>
   handle demo_env (quiet (text_reply []), CallbackQuery (demo_press ''lang_pt_BR''))
     \<lparr>state = Some waiting_for_language, data = no_data\<rparr> =
   \<lparr>state = Some active,
    data = \<lparr>lang = Some ''pt'',
            history = Some [\<lparr>role = System,
                             content = prompt_before @ name_ru @ prompt_after\<rparr>],
            order_details = None\<rparr>\<rparr>"
proof -
  have de: "split_on CHR ''_'' ''lang_de'' ! 1 = ''de''"
    and pt: "split_on CHR ''_'' ''lang_pt_BR'' ! 1 = ''pt''"
    by simp_all
  show ?thesis
    using unsupported_language_keeps_code [of "\<lparr>state = Some waiting_for_language, data = no_data\<rparr>"
        "demo_press ''lang_de''" "''de''" "quiet (text_reply [])" demo_env "[]"]
      unsupported_language_keeps_code [of "\<lparr>state = Some waiting_for_language, data = no_data\<rparr>"
        "demo_press ''lang_pt_BR''" "''pt''" "quiet (text_reply [])" demo_env "[]"]
    by (simp add: handle_def quiet_def demo_press_def no_data_def)
qed

theorem unsupported_language_counterexample:
  "lang (data (handle demo_env (quiet (text_reply []), CallbackQuery (demo_press ''lang_de''))
     \<lparr>state = Some waiting_for_language, data = no_data\<rparr>)) = Some ''de'' \<and>
   ''de'' \<notin> {''ru'', ''en'', ''pl''}"
  by (simp add: handle_def dispatch_def process_language_callback_def io_defs quiet_def
      demo_press_def)


section \<open>Confirmation: edit and confirm\<close>

lemma edit_run:
  assumes "state s = Some confirmation" and "cb_data cb = ''edit_order''"
    and "\<forall>k. fails c k = None"
  shows "dispatch e c (CallbackQuery cb) (start_world s) =
     (Inr (),
      \<lparr>session = \<lparr>state = Some active,
                   data = (data s)\<lparr>history :=
                     Some (get_history (data s)
                           @ [\<lparr>role = Assistant, content = edit_turn\<rparr>])\<rparr>\<rparr>,
       calls = [(callback_message_edit_reply_markup, None),
                (callback_answer (Some (gettext e (ctx_locale c) ''edit_callback_answer'')), None),
                (callback_message_answer (gettext e (ctx_locale c) ''edit_prompt_message''), None)],
       history_var = get_history (data s)
                     @ [\<lparr>role = Assistant, content = edit_turn\<rparr>]\<rparr>)"
  using assms by (simp add: dispatch_def process_edit_order_def io_defs)

lemma confirm_dropped_when_active:
  "state s = Some active \<Longrightarrow> cb_data cb = ''confirm_order'' \<Longrightarrow>
   dispatch e c (CallbackQuery cb) (start_world s) = (Inr (), start_world s)"
  by (simp add: dispatch_def io_defs)

text \<open>
  C4, as the code has it. An edit press in state \<open>confirmation\<close> appends exactly one
  assistant turn (the fixed clarification text) to the stored history and sets the state
  \<open>active\<close>; it leaves \<open>order_details\<close> and \<open>lang\<close> as they were. The stored order cannot
  be confirmed from there: a confirm press in state \<open>active\<close> reaches no handler, makes no
  outside call and changes nothing.
\<close>

theorem edit_keeps_order_details:
  assumes "state s = Some confirmation" and "cb_data cb = ''edit_order''"
    and "\<forall>k. fails c k = None" and "cb_data cb' = ''confirm_order''"
    and "s' = handle e (c, CallbackQuery cb) s"
  shows "state s' = Some active \<and>
         history (data s') =
           Some (get_history (data s)
                 @ [\<lparr>role = Assistant, content = edit_turn\<rparr>]) \<and>
         order_details (data s') = order_details (data s) \<and>
         lang (data s') = lang (data s) \<and>
         dispatch e c' (CallbackQuery cb') (start_world s') = (Inr (), start_world s')"
proof -
  have s': "s' = \<lparr>state = Some active,
                  data = (data s)\<lparr>history :=
                    Some (get_history (data s)
                          @ [\<lparr>role = Assistant, content = edit_turn\<rparr>])\<rparr>\<rparr>"
    using edit_run [OF assms(1,2,3), of e] assms(5) by (simp add: handle_def)
  then have "state s' = Some active"
    by simp
  then have "dispatch e c' (CallbackQuery cb') (start_world s') = (Inr (), start_world s')"
    using assms(4) by (rule confirm_dropped_when_active)
  with s' show ?thesis
    by simp
qed

theorem edit_keeps_order_details_witness:
  "handle demo_env (quiet (text_reply []), CallbackQuery (demo_press ''edit_order''))
     confirming_session =
   \<lparr>state = Some active,
    data = \<lparr>lang = Some ''en'',
            history = Some [\<lparr>role = System, content = get_system_prompt ''en''\<rparr>,
                            \<lparr>role = Assistant, content = edit_turn\<rparr>],
            order_details = Some (JObj full_order)\<rparr>\<rparr>"
proof -
  let ?s' = "handle demo_env (quiet (text_reply []), CallbackQuery (demo_press ''edit_order''))
     confirming_session"
  have "state ?s' = Some active \<and>
        history (data ?s') =
          Some (get_history (data confirming_session)
                @ [\<lparr>role = Assistant, content = edit_turn\<rparr>]) \<and>
        order_details (data ?s') = order_details (data confirming_session) \<and>
        lang (data ?s') = lang (data confirming_session) \<and>
        dispatch demo_env (quiet (text_reply [])) (CallbackQuery (demo_press ''confirm_order''))
          (start_world ?s') = (Inr (), start_world ?s')"
    by (rule edit_keeps_order_details [where cb = "demo_press ''edit_order''"])
      (simp_all add: confirming_session_def demo_press_def quiet_def)
  then have "state ?s' = Some active \<and>
        history (data ?s') = Some [\<lparr>role = System, content = get_system_prompt ''en''\<rparr>,
                                   \<lparr>role = Assistant, content = edit_turn\<rparr>] \<and>
        order_details (data ?s') = Some (JObj full_order) \<and> lang (data ?s') = Some ''en''"
    by (simp add: confirming_session_def get_history_def)
  then show ?thesis
    by (cases ?s', cases "data ?s'") simp
qed

theorem edit_clears_order_counterexample:
  "order_details (data (handle demo_env
       (quiet (text_reply []), CallbackQuery (demo_press ''edit_order'')) confirming_session)) =
     Some (JObj full_order) \<and>
   state (handle demo_env
       (quiet (text_reply []), CallbackQuery (demo_press ''edit_order'')) confirming_session) =
     Some active"
  by (simp add: handle_def dispatch_def process_edit_order_def io_defs quiet_def demo_press_def
      confirming_session_def)

lemma admin_summary_in_order:
  "in_order
     [a_when, py_str e (py_get order ''arrival_time''),
      a_dur, py_str e (py_get order ''duration_hours''),
      a_hookahs, py_str e (py_get order ''hookahs_count''),
      a_masters, py_str e (py_get order ''hookah_masters_count''),
      a_where, py_str e (py_get order ''location''),
      a_phone, py_str e (py_get order ''phone_number''),
      a_client, user_link u]
     (admin_summary e order u)"
  unfolding admin_summary_def
  by (intro in_order_here in_order_skip | simp)+

lemma admin_summary_unlocalized:
  "admin_summary (e\<lparr>gettext := g\<rparr>) order u = admin_summary e order u"
proof -
  have "py_str (e\<lparr>gettext := g\<rparr>) v = py_str e v" for v
    by (cases v) simp_all
  then show ?thesis
    by (simp add: admin_summary_def)
qed

lemma message_dropped_without_session:
  "dispatch e c (Message m) (start_world no_session) = (Inr (), start_world no_session)"
  by (simp add: dispatch_def return_io_def session_start_world no_session_def)

text \<open>
  C7, as the code has it. A confirm press in state \<open>confirmation\<close>, with a stored order
  that is a dict and no outside call raising, makes exactly three outside calls: one
  message to \<open>ADMIN_ID\<close> with the operator summary, the edit of the user's message into
  the localized thanks, and the answer to the callback; the session it leaves is the
  empty one. From there a text message reaches no handler, makes no outside call and
  starts nothing; it is the next \<open>/start\<close> that begins a new session, without data. The
  operator summary holds, in this order, the fixed labels and values for when, duration,
  hookahs, masters, location and phone and the client reference, and it is the same under
  every \<open>gettext\<close> and locale. The client reference is \<open>@\<close> and the user name when the
  user has a non-empty one, else the link \<open>tg://user?id=\<close> with the user's id in decimal.
\<close>

theorem confirm_forwards_and_disposes:
  assumes "state s = Some confirmation" and "order_details (data s) = Some (JObj order)"
    and "cb_data cb = ''confirm_order''" and "\<forall>k. fails c k = None"
    and "fails c' 0 = None"
  shows "dispatch e c (CallbackQuery cb) (start_world s) =
     (Inr (),
      \<lparr>session = no_session,
       calls = [(bot_send_message (ADMIN_ID e) (admin_summary e order (cb_from_user cb)), None),
                (callback_message_edit_text
                   (gettext e (ctx_locale c) ''confirmation_thanks_message''), None),
                (callback_answer None, None)],
       history_var = []\<rparr>) \<and>
     in_order
       [a_when, py_str e (py_get order ''arrival_time''),
        a_dur, py_str e (py_get order ''duration_hours''),
        a_hookahs, py_str e (py_get order ''hookahs_count''),
        a_masters, py_str e (py_get order ''hookah_masters_count''),
        a_where, py_str e (py_get order ''location''),
        a_phone, py_str e (py_get order ''phone_number''),
        a_client, user_link (cb_from_user cb)]
       (admin_summary e order (cb_from_user cb)) \<and>
     (\<forall>n. username (cb_from_user cb) = Some n \<and> n \<noteq> [] \<longrightarrow>
        user_link (cb_from_user cb) = ''@'' @ n) \<and>
     (username (cb_from_user cb) = None \<or> username (cb_from_user cb) = Some [] \<longrightarrow>
        user_link (cb_from_user cb) = ''tg://user?id='' @ str_int (user_id (cb_from_user cb))) \<and>
     admin_summary (e\<lparr>gettext := g\<rparr>) order (cb_from_user cb) =
       admin_summary e order (cb_from_user cb) \<and>
     dispatch e c'' (Message m') (start_world (handle e (c, CallbackQuery cb) s)) =
       (Inr (), start_world no_session) \<and>
     handle e (c', Command_start m) (handle e (c, CallbackQuery cb) s) =
       \<lparr>state = Some waiting_for_language, data = no_data\<rparr>"
proof -
  have run: "dispatch e c (CallbackQuery cb) (start_world s) =
     (Inr (),
      \<lparr>session = no_session,
       calls = [(bot_send_message (ADMIN_ID e) (admin_summary e order (cb_from_user cb)), None),
                (callback_message_edit_text
                   (gettext e (ctx_locale c) ''confirmation_thanks_message''), None),
                (callback_answer None, None)],
       history_var = []\<rparr>)"
    using assms(1-4) by (simp add: dispatch_def process_confirm_order_def io_defs)
  then have after: "handle e (c, CallbackQuery cb) s = no_session"
    by (simp add: handle_def)
  have link: "(\<forall>n. username (cb_from_user cb) = Some n \<and> n \<noteq> [] \<longrightarrow>
        user_link (cb_from_user cb) = ''@'' @ n) \<and>
     (username (cb_from_user cb) = None \<or> username (cb_from_user cb) = Some [] \<longrightarrow>
        user_link (cb_from_user cb) = ''tg://user?id='' @ str_int (user_id (cb_from_user cb)))"
    by (auto simp: user_link_def)
  show ?thesis
    using run link admin_summary_in_order admin_summary_unlocalized
      cmd_start_session [OF assms(5)] message_dropped_without_session
    unfolding after by (intro conjI) simp_all
qed

theorem confirm_forwards_and_disposes_witness:
  "dispatch demo_env (quiet (text_reply [])) (CallbackQuery (demo_press ''confirm_order''))
     (start_world confirming_session) =
   (Inr (),
    \<lparr>session = no_session,
     calls = [(bot_send_message 1000
                 (concat [a_title,
                    a_when, ''Tomorrow at 8pm'', utf8 [0xA],
                    a_dur, ''3'', '' '' @ utf8 [0x447, 0x2E, 0xA],
                    a_hookahs, ''5'', '' '' @ utf8 [0x448, 0x442, 0x2E, 0xA],
                    a_masters, ''2'', '' '' @ utf8 [0x447, 0x435, 0x43B, 0x2E, 0xA],
                    a_where, ''Main St 1'', utf8 [0xA],
                    a_phone, ''+1234567890'', utf8 [0xA, 0xA],
                    a_client, ''@anna'']), None),
              (callback_message_edit_text ''confirmation_thanks_message'', None),
              (callback_answer None, None)],
     history_var = []\<rparr>) \<and>
   user_link \<lparr>user_id = 42, username = None\<rparr> = ''tg://user?id=42''"
proof -
  have "dispatch demo_env (quiet (text_reply [])) (CallbackQuery (demo_press ''confirm_order''))
     (start_world confirming_session) =
   (Inr (),
    \<lparr>session = no_session,
     calls = [(bot_send_message (ADMIN_ID demo_env)
                 (admin_summary demo_env full_order (cb_from_user (demo_press ''confirm_order''))),
               None),
              (callback_message_edit_text
                 (gettext demo_env (ctx_locale (quiet (text_reply [])))
                    ''confirmation_thanks_message''), None),
              (callback_answer None, None)],
     history_var = []\<rparr>)"
    using confirm_forwards_and_disposes [where s = confirming_session and order = full_order
      and cb = "demo_press ''confirm_order''" and c = "quiet (text_reply [])" and e = demo_env
      and c' = "quiet (text_reply [])"]
    by (simp add: confirming_session_def demo_press_def quiet_def)
  moreover have "admin_summary demo_env full_order (cb_from_user (demo_press ''confirm_order'')) =
      concat [a_title,
        a_when, ''Tomorrow at 8pm'', utf8 [0xA],
        a_dur, ''3'', '' '' @ utf8 [0x447, 0x2E, 0xA],
        a_hookahs, ''5'', '' '' @ utf8 [0x448, 0x442, 0x2E, 0xA],
        a_masters, ''2'', '' '' @ utf8 [0x447, 0x435, 0x43B, 0x2E, 0xA],
        a_where, ''Main St 1'', utf8 [0xA],
        a_phone, ''+1234567890'', utf8 [0xA, 0xA],
        a_client, ''@anna'']"
    by (simp add: admin_summary_def full_order_def py_get_def str_int_def str_nat.simps
        user_link_def demo_press_def demo_user_def)
  moreover have "user_link \<lparr>user_id = 42, username = None\<rparr> = ''tg://user?id=42''"
    using confirm_forwards_and_disposes [where s = confirming_session and order = full_order
      and cb = "\<lparr>cb_data = ''confirm_order'', cb_from_user = \<lparr>user_id = 42, username = None\<rparr>\<rparr>"
      and c = "quiet (text_reply [])" and e = demo_env and c' = "quiet (text_reply [])"]
    by (simp add: confirming_session_def quiet_def str_int_def str_nat.simps)
  ultimately show ?thesis
    by (simp add: demo_env_def quiet_def)
qed

theorem message_after_confirm_counterexample:
  "dispatch demo_env (quiet (text_reply ''Hi!'')) (Message (demo_message ''hello''))
     (start_world (handle demo_env
        (quiet (text_reply []), CallbackQuery (demo_press ''confirm_order''))
        confirming_session)) =
   (Inr (), \<lparr>session = \<lparr>state = None, data = no_data\<rparr>, calls = [], history_var = []\<rparr>)"
  by (simp add: handle_def dispatch_def process_confirm_order_def io_defs quiet_def
      demo_press_def confirming_session_def no_session_def)


section \<open>The conversation turn\<close>

text \<open>The paths of \<open>handle_conversation\<close> when no call to Telegram raises.\<close>

lemma conversation_text_reply:
  assumes "state s = Some active" and "completion c = Choices (rm # rest)"
    and "msg_tool_calls rm = []" and "\<forall>k. fails c k = None"
  shows "dispatch e c (Message m) (start_world s) =
     (Inr (),
      \<lparr>session = s\<lparr>data := (data s)\<lparr>history :=
         Some (get_history (data s)
               @ [user_turn (get_lang (data s)) (msg_text m),
                  \<lparr>role = Assistant, content = msg_content rm\<rparr>])\<rparr>\<rparr>,
       calls = [(message_answer (gettext e (ctx_locale c) ''thinking_message'') [], None),
                (completions_create
                   (get_history (data s) @ [user_turn (get_lang (data s)) (msg_text m)]), None),
                (bot_edit_message_text (msg_content rm) (chat_id m), None)],
       history_var = get_history (data s)
               @ [user_turn (get_lang (data s)) (msg_text m),
                  \<lparr>role = Assistant, content = msg_content rm\<rparr>]\<rparr>)"
  using assms by (simp add: dispatch_def handle_conversation_def io_defs)

lemma conversation_completion_raises:
  assumes "state s = Some active" and "completion c = Raises x" and "\<forall>k. fails c k = None"
  shows "dispatch e c (Message m) (start_world s) =
     (Inr (),
      \<lparr>session = s\<lparr>data := (data s)\<lparr>history := Some (get_history (data s))\<rparr>\<rparr>,
       calls = [(message_answer (gettext e (ctx_locale c) ''thinking_message'') [], None),
                (completions_create
                   (get_history (data s) @ [user_turn (get_lang (data s)) (msg_text m)]), Some x),
                (bot_edit_message_text
                   (gettext e (ctx_locale c)
                      (case x of TimeoutError \<Rightarrow> ''timeout_error_message''
                       | OtherError \<Rightarrow> ''error_message''))
                   (chat_id m), None)],
       history_var = get_history (data s)\<rparr>)"
  using assms
  by (cases x) (simp_all add: dispatch_def handle_conversation_def on_error_def io_defs)

lemma conversation_payload_raises:
  assumes "state s = Some active" and "completion c = Choices (rm # rest)"
    and "msg_tool_calls rm = tc # tcs" and "function_name tc = ''create_hookah_order''"
    and "json_loads e (function_arguments tc) = None" and "\<forall>k. fails c k = None"
  shows "dispatch e c (Message m) (start_world s) =
     (Inr (),
      \<lparr>session = s\<lparr>data := (data s)\<lparr>history := Some (get_history (data s))\<rparr>\<rparr>,
       calls = [(message_answer (gettext e (ctx_locale c) ''thinking_message'') [], None),
                (completions_create
                   (get_history (data s) @ [user_turn (get_lang (data s)) (msg_text m)]), None),
                (bot_edit_message_text (gettext e (ctx_locale c) ''error_message'')
                   (chat_id m), None)],
       history_var = get_history (data s)\<rparr>)"
  using assms
  by (simp add: dispatch_def handle_conversation_def handle_tool_call_def on_error_def io_defs)

lemma conversation_payload_not_dict:
  assumes "state s = Some active" and "completion c = Choices (rm # rest)"
    and "msg_tool_calls rm = tc # tcs" and "function_name tc = ''create_hookah_order''"
    and "json_loads e (function_arguments tc) = Some v" and "\<forall>kvs. v \<noteq> JObj kvs"
    and "\<forall>k. fails c k = None"
  shows "dispatch e c (Message m) (start_world s) =
     (Inr (),
      \<lparr>session = s\<lparr>data := (data s)\<lparr>history := Some (get_history (data s)),
                                      order_details := Some v\<rparr>\<rparr>,
       calls = [(message_answer (gettext e (ctx_locale c) ''thinking_message'') [], None),
                (completions_create
                   (get_history (data s) @ [user_turn (get_lang (data s)) (msg_text m)]), None),
                (bot_edit_message_text (gettext e (ctx_locale c) ''error_message'')
                   (chat_id m), None)],
       history_var = get_history (data s)\<rparr>)"
  using assms
  by (cases v)
    (simp_all add: dispatch_def handle_conversation_def handle_tool_call_def on_error_def io_defs)

lemma conversation_order_extracted:
  assumes "state s = Some active" and "completion c = Choices (rm # rest)"
    and "msg_tool_calls rm = tc # tcs" and "function_name tc = ''create_hookah_order''"
    and "json_loads e (function_arguments tc) = Some (JObj kvs)" and "\<forall>k. fails c k = None"
  shows "dispatch e c (Message m) (start_world s) =
     (Inr (),
      \<lparr>session = \<lparr>state = Some confirmation,
                   data = (data s)\<lparr>order_details := Some (JObj kvs)\<rparr>\<rparr>,
       calls = [(message_answer (gettext e (ctx_locale c) ''thinking_message'') [], None),
                (completions_create
                   (get_history (data s) @ [user_turn (get_lang (data s)) (msg_text m)]), None),
                (message_answer (summary e (ctx_locale c) kvs (from_user m))
                   (confirm_keyboard e (ctx_locale c)), None),
                (bot_delete_message (chat_id m), None)],
       history_var = get_history (data s) @ [user_turn (get_lang (data s)) (msg_text m)]\<rparr>)"
  using assms
  by (simp add: dispatch_def handle_conversation_def handle_tool_call_def io_defs)

lemma conversation_other_tool:
  assumes "state s = Some active" and "completion c = Choices (rm # rest)"
    and "msg_tool_calls rm = tc # tcs" and "function_name tc \<noteq> ''create_hookah_order''"
    and "\<forall>k. fails c k = None"
  shows "dispatch e c (Message m) (start_world s) =
     (Inr (),
      \<lparr>session = s,
       calls = [(message_answer (gettext e (ctx_locale c) ''thinking_message'') [], None),
                (completions_create
                   (get_history (data s) @ [user_turn (get_lang (data s)) (msg_text m)]), None),
                (bot_delete_message (chat_id m), None)],
       history_var = get_history (data s) @ [user_turn (get_lang (data s)) (msg_text m)]\<rparr>)"
  using assms
  by (simp add: dispatch_def handle_conversation_def handle_tool_call_def io_defs)

lemma summary_in_order:
  "in_order
     [py_str e (py_get kvs ''arrival_time''), py_str e (py_get kvs ''duration_hours''),
      py_str e (py_get kvs ''hookahs_count''), py_str e (py_get kvs ''hookah_masters_count''),
      py_str e (py_get kvs ''location''), py_str e (py_get kvs ''phone_number''),
      user_link u]
     (summary e loc kvs u)"
  unfolding summary_def
  by (intro in_order_here in_order_skip | simp)+


text \<open>
  C6. A message in state \<open>active\<close> that the provider answers with a tool call named
  \<open>create_hookah_order\<close> whose payload decodes to a dict, no call to Telegram raising:
  the decoded dict is stored as \<open>order_details\<close>, the state becomes \<open>confirmation\<close>, and
  nothing else of the session changes, so the stored history gets no assistant turn.
  The outside calls are the "thinking" message, one completion call, the summary with
  the confirm and edit buttons, and the deletion of the "thinking" message. The summary
  holds the six field values and the client reference.
\<close>

theorem order_extracted_to_confirmation:
  assumes "state s = Some active" and "completion c = Choices (rm # rest)"
    and "msg_tool_calls rm = tc # tcs" and "function_name tc = ''create_hookah_order''"
    and "json_loads e (function_arguments tc) = Some (JObj kvs)" and "\<forall>k. fails c k = None"
  shows "dispatch e c (Message m) (start_world s) =
     (Inr (),
      \<lparr>session = \<lparr>state = Some confirmation,
                   data = (data s)\<lparr>order_details := Some (JObj kvs)\<rparr>\<rparr>,
       calls = [(message_answer (gettext e (ctx_locale c) ''thinking_message'') [], None),
                (completions_create
                   (get_history (data s) @ [user_turn (get_lang (data s)) (msg_text m)]), None),
                (message_answer (summary e (ctx_locale c) kvs (from_user m))
                   (confirm_keyboard e (ctx_locale c)), None),
                (bot_delete_message (chat_id m), None)],
       history_var = get_history (data s) @ [user_turn (get_lang (data s)) (msg_text m)]\<rparr>) \<and>
     in_order
       [py_str e (py_get kvs ''arrival_time''), py_str e (py_get kvs ''duration_hours''),
        py_str e (py_get kvs ''hookahs_count''), py_str e (py_get kvs ''hookah_masters_count''),
        py_str e (py_get kvs ''location''), py_str e (py_get kvs ''phone_number''),
        user_link (from_user m)]
       (summary e (ctx_locale c) kvs (from_user m))"
  using conversation_order_extracted [OF assms] summary_in_order by simp

theorem order_extracted_witness:
  "handle demo_env
     (quiet (tool_reply ''create_hookah_order'' full_payload), Message (demo_message ''ok''))
     english_session = confirming_session \<and>
   map (py_str demo_env \<circ> py_get full_order) required_fields =
     [''Tomorrow at 8pm'', ''3'', ''2'', ''5'', ''Main St 1'', ''+1234567890'']"
proof -
  have "handle demo_env
     (quiet (tool_reply ''create_hookah_order'' full_payload), Message (demo_message ''ok''))
     english_session = confirming_session"
    using order_extracted_to_confirmation [of english_session
        "quiet (tool_reply ''create_hookah_order'' full_payload)"
        "\<lparr>msg_content = [], msg_tool_calls =
           [\<lparr>function_name = ''create_hookah_order'', function_arguments = full_payload\<rparr>]\<rparr>"
        "[]" "\<lparr>function_name = ''create_hookah_order'', function_arguments = full_payload\<rparr>"
        "[]" demo_env full_order "demo_message ''ok''"]
    by (simp add: handle_def quiet_def tool_reply_def english_session_def confirming_session_def
        demo_env_def demo_loads_simps)
  moreover have "map (py_str demo_env \<circ> py_get full_order) required_fields =
     [''Tomorrow at 8pm'', ''3'', ''2'', ''5'', ''Main St 1'', ''+1234567890'']"
    by (simp add: required_fields_def full_order_def py_get_def str_int_def str_nat.simps)
  ultimately show ?thesis
    by simp
qed

text \<open>
  C3, as the code has it. For a tool call named \<open>create_hookah_order\<close>, no call to
  Telegram raising: whatever \<open>json.loads\<close> returns for the payload is stored as
  \<open>order_details\<close>, with no check of its fields. When \<open>json.loads\<close> raises,
  \<open>order_details\<close> is left as it was, the stored history is the history from before the
  message, the user is shown the generic error text and the state stays \<open>active\<close>. When
  the payload decodes to a dict, the state becomes \<open>confirmation\<close>, whatever keys the
  dict has. When it decodes to anything else, the turn ends like a failed one (history
  from before the message, generic error text, state \<open>active\<close>), with the decoded value
  left in \<open>order_details\<close>.
\<close>

theorem extraction_stores_any_decoded_dict:
  assumes "state s = Some active" and "completion c = Choices (rm # rest)"
    and "msg_tool_calls rm = tc # tcs" and "function_name tc = ''create_hookah_order''"
    and "\<forall>k. fails c k = None"
    and "r = dispatch e c (Message m) (start_world s)"
  shows "(json_loads e (function_arguments tc) = None \<longrightarrow>
            order_details (data (session (snd r))) = order_details (data s) \<and>
            history (data (session (snd r))) = Some (get_history (data s)) \<and>
            state (session (snd r)) = Some active \<and>
            last (calls (snd r)) =
              (bot_edit_message_text (gettext e (ctx_locale c) ''error_message'') (chat_id m),
               None)) \<and>
         (\<forall>v. json_loads e (function_arguments tc) = Some v \<longrightarrow>
            order_details (data (session (snd r))) = Some v) \<and>
         (\<forall>kvs. json_loads e (function_arguments tc) = Some (JObj kvs) \<longrightarrow>
            state (session (snd r)) = Some confirmation) \<and>
         (\<forall>v. json_loads e (function_arguments tc) = Some v \<and> (\<forall>kvs. v \<noteq> JObj kvs) \<longrightarrow>
            history (data (session (snd r))) = Some (get_history (data s)) \<and>
            state (session (snd r)) = Some active \<and>
            last (calls (snd r)) =
              (bot_edit_message_text (gettext e (ctx_locale c) ''error_message'') (chat_id m),
               None))"
proof -
  have raises: "order_details (data (session (snd r))) = order_details (data s) \<and>
        history (data (session (snd r))) = Some (get_history (data s)) \<and>
        state (session (snd r)) = Some active \<and>
        last (calls (snd r)) =
          (bot_edit_message_text (gettext e (ctx_locale c) ''error_message'') (chat_id m), None)"
    if "json_loads e (function_arguments tc) = None"
    using conversation_payload_raises [OF assms(1-4) that assms(5), of m] assms(1,6)
    by simp
  have dict: "order_details (data (session (snd r))) = Some (JObj kvs) \<and>
        state (session (snd r)) = Some confirmation"
    if "json_loads e (function_arguments tc) = Some (JObj kvs)" for kvs
    using conversation_order_extracted [OF assms(1-4) that assms(5), of m] assms(6)
    by simp
  have other: "order_details (data (session (snd r))) = Some v \<and>
        history (data (session (snd r))) = Some (get_history (data s)) \<and>
        state (session (snd r)) = Some active \<and>
        last (calls (snd r)) =
          (bot_edit_message_text (gettext e (ctx_locale c) ''error_message'') (chat_id m), None)"
    if "json_loads e (function_arguments tc) = Some v" and "\<forall>kvs. v \<noteq> JObj kvs" for v
    using conversation_payload_not_dict [OF assms(1-4) that assms(5), of m] assms(1,6)
    by simp
  have stored: "order_details (data (session (snd r))) = Some v"
    if "json_loads e (function_arguments tc) = Some v" for v
  proof (cases "\<exists>kvs. v = JObj kvs")
    case True
    with that dict show ?thesis by blast
  next
    case False
    with that other show ?thesis by blast
  qed
  from raises dict other stored show ?thesis
    by blast
qed

theorem extraction_witness:
  "order_details (data (handle demo_env
     (quiet (tool_reply ''create_hookah_order'' ''{''), Message (demo_message ''ok''))
     english_session)) = None \<and>
   state (handle demo_env
     (quiet (tool_reply ''create_hookah_order'' ''{''), Message (demo_message ''ok''))
     english_session) = Some active \<and>
   order_details (data (handle demo_env
     (quiet (tool_reply ''create_hookah_order'' ''{}''), Message (demo_message ''ok''))
     english_session)) = Some (JObj []) \<and>
   state (handle demo_env
     (quiet (tool_reply ''create_hookah_order'' ''{}''), Message (demo_message ''ok''))
     english_session) = Some confirmation \<and>
   order_details (data (handle demo_env
     (quiet (tool_reply ''create_hookah_order'' ''[]''), Message (demo_message ''ok''))
     english_session)) = Some (JArr []) \<and>
   state (handle demo_env
     (quiet (tool_reply ''create_hookah_order'' ''[]''), Message (demo_message ''ok''))
     english_session) = Some active \<and>
   history (data (handle demo_env
     (quiet (tool_reply ''create_hookah_order'' ''[]''), Message (demo_message ''ok''))
     english_session)) = history (data english_session)"
proof -
  have a: "state english_session = Some active"
    by (simp add: english_session_def)
  have b: "completion (quiet (tool_reply ''create_hookah_order'' p)) =
       Choices (\<lparr>msg_content = [], msg_tool_calls =
         [\<lparr>function_name = ''create_hookah_order'', function_arguments = p\<rparr>]\<rparr> # [])" for p
    by (simp add: quiet_def tool_reply_def)
  have c: "msg_tool_calls \<lparr>msg_content = [], msg_tool_calls =
         [\<lparr>function_name = ''create_hookah_order'', function_arguments = p\<rparr>]\<rparr> =
       \<lparr>function_name = ''create_hookah_order'', function_arguments = p\<rparr> # []" for p
    by simp
  have d: "function_name \<lparr>function_name = ''create_hookah_order'', function_arguments = p\<rparr> =
       ''create_hookah_order''" for p
    by simp
  have f: "\<forall>k. fails (quiet (tool_reply ''create_hookah_order'' p)) k = None" for p
    by (simp add: quiet_def)
  have loads: "json_loads demo_env ''{'' = None" "json_loads demo_env ''{}'' = Some (JObj [])"
    "json_loads demo_env ''[]'' = Some (JArr [])"
    by (simp_all add: demo_env_def demo_loads_simps)
  from extraction_stores_any_decoded_dict [OF a b [of "''{''"] c [of "''{''"] d [of "''{''"]
        f [of "''{''"] refl, where e = demo_env and m = "demo_message ''ok''"]
    extraction_stores_any_decoded_dict [OF a b [of "''{}''"] c [of "''{}''"] d [of "''{}''"]
        f [of "''{}''"] refl, where e = demo_env and m = "demo_message ''ok''"]
    extraction_stores_any_decoded_dict [OF a b [of "''[]''"] c [of "''[]''"] d [of "''[]''"]
        f [of "''[]''"] refl, where e = demo_env and m = "demo_message ''ok''"]
    loads
  show ?thesis
    by (simp add: handle_def english_session_def get_history_def)
qed

theorem partial_payload_counterexample:
  "order_details (data (handle demo_env
       (quiet (tool_reply ''create_hookah_order'' partial_payload), Message (demo_message ''ok''))
       english_session)) =
     Some (JObj [(''arrival_time'', JStr ''Tomorrow at 8pm'')]) \<and>
   state (handle demo_env
       (quiet (tool_reply ''create_hookah_order'' partial_payload), Message (demo_message ''ok''))
       english_session) = Some confirmation \<and>
   map (py_get [(''arrival_time'', JStr ''Tomorrow at 8pm'')]) required_fields =
     [JStr ''Tomorrow at 8pm'', JNull, JNull, JNull, JNull, JNull]"
proof -
  have "dispatch demo_env (quiet (tool_reply ''create_hookah_order'' partial_payload))
      (Message (demo_message ''ok'')) (start_world english_session) =
     (Inr (),
      \<lparr>session = \<lparr>state = Some confirmation,
                   data = (data english_session)\<lparr>order_details :=
                     Some (JObj [(''arrival_time'', JStr ''Tomorrow at 8pm'')])\<rparr>\<rparr>,
       calls = [(message_answer (gettext demo_env ''en'' ''thinking_message'') [], None),
                (completions_create
                   (get_history (data english_session)
                    @ [user_turn (get_lang (data english_session)) ''ok'']), None),
                (message_answer (summary demo_env ''en''
                     [(''arrival_time'', JStr ''Tomorrow at 8pm'')] demo_user)
                   (confirm_keyboard demo_env ''en''), None),
                (bot_delete_message 42, None)],
       history_var = get_history (data english_session)
                     @ [user_turn (get_lang (data english_session)) ''ok'']\<rparr>)"
    using conversation_order_extracted [of english_session
        "quiet (tool_reply ''create_hookah_order'' partial_payload)"
        "\<lparr>msg_content = [], msg_tool_calls =
           [\<lparr>function_name = ''create_hookah_order'', function_arguments = partial_payload\<rparr>]\<rparr>"
        "[]" "\<lparr>function_name = ''create_hookah_order'', function_arguments = partial_payload\<rparr>"
        "[]" demo_env "[(''arrival_time'', JStr ''Tomorrow at 8pm'')]" "demo_message ''ok''"]
    by (simp add: quiet_def tool_reply_def english_session_def demo_env_def demo_loads_simps
        demo_message_def)
  then show ?thesis
    by (simp add: handle_def required_fields_def py_get_def)
qed

text \<open>
  C9, as the code has it. For a tool call of any other name, no call to Telegram
  raising, the turn leaves the stored session exactly as it was: no order, state
  \<open>active\<close>, and the stored history without the user's turn. Its outside calls are the
  "thinking" message, the completion call and the deletion of the "thinking" message. The
  user's turn is in the handler's local list only, unanswered and not popped, and is
  dropped with it.
\<close>

theorem other_tool_call_changes_nothing:
  assumes "state s = Some active" and "completion c = Choices (rm # rest)"
    and "msg_tool_calls rm = tc # tcs" and "function_name tc \<noteq> ''create_hookah_order''"
    and "\<forall>k. fails c k = None"
  shows "dispatch e c (Message m) (start_world s) =
     (Inr (),
      \<lparr>session = s,
       calls = [(message_answer (gettext e (ctx_locale c) ''thinking_message'') [], None),
                (completions_create
                   (get_history (data s) @ [user_turn (get_lang (data s)) (msg_text m)]), None),
                (bot_delete_message (chat_id m), None)],
       history_var = get_history (data s) @ [user_turn (get_lang (data s)) (msg_text m)]\<rparr>)"
  using assms by (rule conversation_other_tool)

theorem other_tool_call_witness:
  "handle demo_env (quiet (tool_reply ''get_weather'' ''{}''), Message (demo_message ''hello''))
     english_session = english_session"
  using other_tool_call_changes_nothing [of english_session
      "quiet (tool_reply ''get_weather'' ''{}'')"
      "\<lparr>msg_content = [], msg_tool_calls =
         [\<lparr>function_name = ''get_weather'', function_arguments = ''{}''\<rparr>]\<rparr>"
      "[]" "\<lparr>function_name = ''get_weather'', function_arguments = ''{}''\<rparr>"
      "[]" demo_env "demo_message ''hello''"]
  by (simp add: handle_def quiet_def tool_reply_def english_session_def)

theorem other_tool_call_counterexample:
  "get_history (data (handle demo_env
       (quiet (tool_reply ''get_weather'' ''{}''), Message (demo_message ''hello''))
       english_session)) =
     [\<lparr>role = System, content = get_system_prompt ''en''\<rparr>] \<and>
   user_turn ''en'' ''hello'' \<notin> set (get_history (data (handle demo_env
       (quiet (tool_reply ''get_weather'' ''{}''), Message (demo_message ''hello''))
       english_session)))"
proof -
  have "handle demo_env
       (quiet (tool_reply ''get_weather'' ''{}''), Message (demo_message ''hello''))
       english_session = english_session"
    using conversation_other_tool [of english_session
      "quiet (tool_reply ''get_weather'' ''{}'')"
      "\<lparr>msg_content = [], msg_tool_calls =
         [\<lparr>function_name = ''get_weather'', function_arguments = ''{}''\<rparr>]\<rparr>"
      "[]" "\<lparr>function_name = ''get_weather'', function_arguments = ''{}''\<rparr>"
      "[]" demo_env "demo_message ''hello''"]
    by (simp add: handle_def quiet_def tool_reply_def english_session_def)
  then show ?thesis
    by (simp add: english_session_def get_history_def user_turn_def)
qed


text \<open>
  When the completion call itself raises, no call to Telegram raising, the rollback
  works: the stored history is the history from before the message, the "thinking"
  message is edited into the timeout text or the generic error text, nothing else of the
  session changes, and the completion call is made once.
\<close>

lemma completion_failure_rolls_back:
  assumes "state s = Some active" and "history (data s) = Some h"
    and "completion c = Raises x" and "\<forall>k. fails c k = None"
  shows "dispatch e c (Message m) (start_world s) =
     (Inr (),
      \<lparr>session = s,
       calls = [(message_answer (gettext e (ctx_locale c) ''thinking_message'') [], None),
                (completions_create (h @ [user_turn (get_lang (data s)) (msg_text m)]), Some x),
                (bot_edit_message_text
                   (gettext e (ctx_locale c)
                      (case x of TimeoutError \<Rightarrow> ''timeout_error_message''
                       | OtherError \<Rightarrow> ''error_message''))
                   (chat_id m), None)],
       history_var = h\<rparr>)"
  using conversation_completion_raises [OF assms(1,3,4), of e m] assms(2)
  by (simp add: get_history_def)

text \<open>
  C2 asks that every exception raised by the completion call or by the handling of its
  result removes the user's turn, so that the stored history is the one from before the
  message. The code departs from it here: the provider returns a text; the handler
  appends the assistant turn and stores the history; the edit that delivers the text
  raises. The \<open>except\<close> clause shows the error text and pops the last element of the
  list, which now is the assistant turn, and stores the list: the user's turn stays in
  the stored history.
\<close>

theorem failed_delivery_keeps_user_turn:
  "dispatch demo_env (third_call_fails (text_reply ''Hi!'')) (Message (demo_message ''hello''))
     (start_world english_session) =
   (Inr (),
    \<lparr>session = english_session\<lparr>data := (data english_session)\<lparr>history :=
       Some [\<lparr>role = System, content = get_system_prompt ''en''\<rparr>,
             user_turn ''en'' ''hello'']\<rparr>\<rparr>,
     calls = [(message_answer ''thinking_message'' [], None),
              (completions_create [\<lparr>role = System, content = get_system_prompt ''en''\<rparr>,
                                   user_turn ''en'' ''hello''], None),
              (bot_edit_message_text ''Hi!'' 42, Some OtherError),
              (bot_edit_message_text ''error_message'' 42, None)],
     history_var = [\<lparr>role = System, content = get_system_prompt ''en''\<rparr>,
                    user_turn ''en'' ''hello'']\<rparr>)"
  by (simp add: dispatch_def handle_conversation_def on_error_def io_defs third_call_fails_def
      text_reply_def english_session_def demo_env_def demo_message_def get_history_def
      get_lang_def)


section \<open>Invariants of the stored session\<close>

lemma paired_snoc_assistant: "paired h \<Longrightarrow> paired (h @ [\<lparr>role = Assistant, content = t\<rparr>])"
  by (induction h rule: paired.induct) (simp_all split: if_splits)

lemma paired_snoc_reply:
  "paired h \<Longrightarrow> paired (h @ [\<lparr>role = User, content = u\<rparr>, \<lparr>role = Assistant, content = t\<rparr>])"
  by (induction h rule: paired.induct) (simp_all split: if_splits)

text \<open>
  An update during which no outside call raises leaves the stored history paired if it
  was.
\<close>

lemma quiet_update_keeps_paired:
  assumes "paired (get_history (data s))" and "\<forall>k. fails c k = None"
  shows "paired (get_history (data (handle e (c, ev) s)))"
proof (cases ev)
  case (Command_start m)
  then show ?thesis
    using assms(2)
    by (simp add: handle_def dispatch_def cmd_start_def io_defs no_session_def no_data_def
        get_history_def)
next
  case (Message m)
  then show ?thesis
    using assms
    by (simp add: handle_def dispatch_def handle_conversation_def handle_tool_call_def
        on_error_def io_defs get_history_def user_turn_def paired_snoc_reply
        split: option.splits exn.splits response.splits list.splits json.splits)
next
  case (CallbackQuery cb)
  then show ?thesis
    using assms
    by (simp add: handle_def dispatch_def process_language_callback_def
        process_confirm_order_def process_edit_order_def io_defs no_session_def no_data_def
        get_history_def paired_snoc_assistant
        split: option.splits list.splits json.splits)
qed

text \<open>
  C1 asks that in every reachable session every user turn of the history is followed by
  an assistant turn or was removed. The code departs from it: after \<open>/start\<close>, English
  and one message whose text reply cannot be delivered, the state is \<open>active\<close> and the
  stored history ends with the user's turn, which has no assistant turn after it and was
  not removed.
\<close>

theorem failed_delivery_breaks_pairing:
  "state (run demo_env failed_delivery_dialogue no_session) = Some active \<and>
   history (data (run demo_env failed_delivery_dialogue no_session)) =
     Some [\<lparr>role = System, content = get_system_prompt ''en''\<rparr>, user_turn ''en'' ''hello''] \<and>
   \<not> paired (get_history (data (run demo_env failed_delivery_dialogue no_session)))"
proof -
  have 1: "handle demo_env (quiet (text_reply []), Command_start (demo_message ''/start''))
      no_session = \<lparr>state = Some waiting_for_language, data = no_data\<rparr>"
    by (rule cmd_start_session) (simp add: quiet_def)
  have 2: "handle demo_env (quiet (text_reply []), CallbackQuery (demo_press ''lang_en''))
      \<lparr>state = Some waiting_for_language, data = no_data\<rparr> = english_session"
    using language_callback_run [of "\<lparr>state = Some waiting_for_language, data = no_data\<rparr>"
        "demo_press ''lang_en''" "''en''" "quiet (text_reply [])" demo_env]
    by (simp add: handle_def quiet_def demo_press_def no_data_def english_session_def)
  have 3: "handle demo_env (third_call_fails (text_reply ''Hi!''), Message (demo_message ''hello''))
      english_session =
      english_session\<lparr>data := (data english_session)\<lparr>history :=
        Some [\<lparr>role = System, content = get_system_prompt ''en''\<rparr>,
              user_turn ''en'' ''hello'']\<rparr>\<rparr>"
    by (simp add: handle_def dispatch_def handle_conversation_def on_error_def io_defs
        third_call_fails_def text_reply_def english_session_def demo_env_def demo_message_def
        get_history_def get_lang_def)
  have "run demo_env failed_delivery_dialogue no_session =
      english_session\<lparr>data := (data english_session)\<lparr>history :=
        Some [\<lparr>role = System, content = get_system_prompt ''en''\<rparr>,
              user_turn ''en'' ''hello'']\<rparr>\<rparr>"
    by (simp add: run_def failed_delivery_dialogue_def 1 2 3)
  then show ?thesis
    by (simp add: english_session_def get_history_def user_turn_def)
qed

lemma has_order_start: "has_order (handle e (c, Command_start m) s)"
  by (simp add: has_order_def handle_def dispatch_def cmd_start_def io_defs no_session_def
      split: option.splits)

lemma has_order_language:
  "state s \<noteq> Some confirmation \<Longrightarrow>
   has_order (session (snd (process_language_callback e c cb (start_world s))))"
  by (simp add: has_order_def process_language_callback_def io_defs
      split: option.splits list.splits)

lemma has_order_confirm:
  "has_order s \<Longrightarrow> has_order (session (snd (process_confirm_order e c cb (start_world s))))"
  by (simp add: has_order_def process_confirm_order_def io_defs no_session_def
      split: option.splits json.splits if_splits)

lemma has_order_edit:
  "has_order s \<Longrightarrow> has_order (session (snd (process_edit_order e c cb (start_world s))))"
  by (simp add: has_order_def process_edit_order_def io_defs
      split: option.splits json.splits if_splits)

lemma has_order_conversation:
  "state s = Some active \<Longrightarrow>
   has_order (session (snd (handle_conversation e c m (start_world s))))"
  by (simp add: has_order_def handle_conversation_def handle_tool_call_def on_error_def io_defs
      split: option.splits exn.splits response.splits list.splits json.splits)

lemma has_order_handle: "has_order s \<Longrightarrow> has_order (handle e u s)"
proof (cases u)
  case (Pair c ev)
  assume s: "has_order s"
  show ?thesis
  proof (cases ev)
    case (Command_start m)
    with Pair show ?thesis
      by (simp add: has_order_start)
  next
    case (Message m)
    with Pair s show ?thesis
      by (simp add: handle_def dispatch_def has_order_conversation return_io_def
          session_start_world)
  next
    case (CallbackQuery cb)
    with Pair s show ?thesis
      by (simp add: handle_def dispatch_def has_order_language has_order_confirm
          has_order_edit return_io_def session_start_world)
  qed
qed

lemma has_order_run: "has_order s \<Longrightarrow> has_order (run e us s)"
proof (induction us arbitrary: s)
  case Nil
  then show ?case
    by (simp add: run_def)
next
  case (Cons u us)
  have "run e (u # us) s = run e us (handle e u s)"
    by (simp add: run_def)
  with Cons.IH [OF has_order_handle [OF Cons.prems]] show ?case
    by simp
qed

text \<open>
  C10. In every session reached from the empty one by handling updates, whatever the
  outside did during them: when the state is \<open>confirmation\<close>, \<open>order_details\<close> holds a
  dict, and a confirm press gets as far as sending the operator summary built from it
  (the handler does not raise on reading the order).
\<close>

theorem confirmation_has_order:
  assumes "s = run e us no_session" and "state s = Some confirmation"
    and "cb_data cb = ''confirm_order''"
  shows "\<exists>order. order_details (data s) = Some (JObj order) \<and>
           hd (calls (snd (dispatch e c (CallbackQuery cb) (start_world s)))) =
             (bot_send_message (ADMIN_ID e) (admin_summary e order (cb_from_user cb)),
              fails c 0)"
proof -
  have "has_order no_session"
    by (simp add: has_order_def no_session_def)
  then have "has_order s"
    unfolding assms(1) by (rule has_order_run)
  with assms(2) obtain order where order: "order_details (data s) = Some (JObj order)"
    by (auto simp: has_order_def split: option.splits json.splits)
  have "hd (calls (snd (dispatch e c (CallbackQuery cb) (start_world s)))) =
          (bot_send_message (ADMIN_ID e) (admin_summary e order (cb_from_user cb)), fails c 0)"
    using assms(2,3) order
    by (simp add: dispatch_def process_confirm_order_def io_defs split: option.splits)
  with order show ?thesis
    by blast
qed

lemma order_dialogue_run: "run demo_env order_dialogue no_session = confirming_session"
proof -
  have 1: "handle demo_env (quiet (text_reply []), Command_start (demo_message ''/start''))
      no_session = \<lparr>state = Some waiting_for_language, data = no_data\<rparr>"
    by (rule cmd_start_session) (simp add: quiet_def)
  have 2: "handle demo_env (quiet (text_reply []), CallbackQuery (demo_press ''lang_en''))
      \<lparr>state = Some waiting_for_language, data = no_data\<rparr> = english_session"
    using language_callback_run [of "\<lparr>state = Some waiting_for_language, data = no_data\<rparr>"
        "demo_press ''lang_en''" "''en''" "quiet (text_reply [])" demo_env]
    by (simp add: handle_def quiet_def demo_press_def no_data_def english_session_def)
  have 3: "handle demo_env (quiet (tool_reply ''create_hookah_order'' full_payload), Message m)
      english_session = confirming_session" for m
    using conversation_order_extracted [of english_session
        "quiet (tool_reply ''create_hookah_order'' full_payload)"
        "\<lparr>msg_content = [], msg_tool_calls =
           [\<lparr>function_name = ''create_hookah_order'', function_arguments = full_payload\<rparr>]\<rparr>"
        "[]" "\<lparr>function_name = ''create_hookah_order'', function_arguments = full_payload\<rparr>"
        "[]" demo_env full_order m]
    by (simp add: handle_def quiet_def tool_reply_def english_session_def confirming_session_def
        demo_env_def demo_loads_simps)
  show ?thesis
    by (simp add: run_def order_dialogue_def 1 2 3)
qed

theorem confirmation_has_order_witness:
  "\<exists>order. order_details (data (run demo_env order_dialogue no_session)) = Some (JObj order) \<and>
     hd (calls (snd (dispatch demo_env (quiet (text_reply []))
        (CallbackQuery (demo_press ''confirm_order''))
        (start_world (run demo_env order_dialogue no_session))))) =
       (bot_send_message (ADMIN_ID demo_env)
          (admin_summary demo_env order (cb_from_user (demo_press ''confirm_order''))),
        fails (quiet (text_reply [])) 0)"
proof (rule confirmation_has_order [of _ demo_env order_dialogue])
  show "run demo_env order_dialogue no_session = run demo_env order_dialogue no_session"
    by simp
  show "state (run demo_env order_dialogue no_session) = Some confirmation"
    by (simp add: order_dialogue_run confirming_session_def)
  show "cb_data (demo_press ''confirm_order'') = ''confirm_order''"
    by (simp add: demo_press_def)
qed


end
